theory Spec2Isabelle
  imports Main "HOL-Library.AList" "HOL-Library.Sublist"
begin

section \<open>Python values\<close>

text \<open>
  A Python \<open>str\<close> is a sequence of Unicode code points. The literals of the source are
  ASCII, so \<open>u\<close> turns an Isabelle string literal into the code points of the same text.
\<close>

type_synonym ustring = "nat list"

definition u :: "string \<Rightarrow> ustring" where
  "u s = map of_char s"

text \<open>
  The webhook body is the result of \<open>json.loads\<close>: \<open>None\<close>, booleans, integers, strings,
  lists and dictionaries with string keys. A dictionary is an association list in insertion
  order; its keys are distinct. Numbers are the integers (a payload with fractional numbers
  is outside this model).
\<close>

datatype json =
    JNull
  | JBool bool
  | JInt int
  | JStr ustring
  | JArr "json list"
  | JObj "(ustring \<times> json) list"

datatype pyerr =
    KeyError
  | TypeError
  | ValueError
  | AttributeError
  | UnicodeEncodeError
  | JSONDecodeError
  | UserNotFoundException
  | ClientError
  | RequestException
  | MissingSchema

text \<open>A dictionary built by the handler itself: keys are hashable values.\<close>

type_synonym pydict = "(json \<times> json) list"

definition bind_err :: "pyerr + 'a \<Rightarrow> ('a \<Rightarrow> pyerr + 'b) \<Rightarrow> pyerr + 'b" where
  "bind_err r f = (case r of Inl e \<Rightarrow> Inl e | Inr x \<Rightarrow> f x)"

text \<open>\<open>obj[key]\<close> for a string key: only a dictionary can be subscripted by a string.\<close>

fun subscript :: "json \<Rightarrow> ustring \<Rightarrow> pyerr + json" where
  "subscript (JObj kvs) k = (case map_of kvs k of None \<Rightarrow> Inl KeyError | Some v \<Rightarrow> Inr v)"
| "subscript _ k = Inl TypeError"

text \<open>\<open>key in obj\<close>, used by the source on dictionaries only.\<close>

fun has_key :: "json \<Rightarrow> ustring \<Rightarrow> bool" where
  "has_key (JObj kvs) k = (map_of kvs k \<noteq> None)"
| "has_key _ k = False"

text \<open>Truth value of an object in a condition.\<close>

fun truthy :: "json \<Rightarrow> bool" where
  "truthy JNull = False"
| "truthy (JBool b) = b"
| "truthy (JInt i) = (i \<noteq> 0)"
| "truthy (JStr s) = (s \<noteq> [])"
| "truthy (JArr xs) = (xs \<noteq> [])"
| "truthy (JObj kvs) = (kvs \<noteq> [])"

text \<open>Iteration: a list yields its elements, a string its characters, a dictionary its keys.\<close>

fun py_iter :: "json \<Rightarrow> pyerr + json list" where
  "py_iter (JArr xs) = Inr xs"
| "py_iter (JStr s) = Inr (map (\<lambda>c. JStr [c]) s)"
| "py_iter (JObj kvs) = Inr (map (\<lambda>kv. JStr (fst kv)) kvs)"
| "py_iter _ = Inl TypeError"

text \<open>\<open>sep.join(items)\<close>: every item has to be a string.\<close>

fun join :: "ustring \<Rightarrow> ustring list \<Rightarrow> ustring" where
  "join sep [] = []"
| "join sep [x] = x"
| "join sep (x # y # ys) = x @ sep @ join sep (y # ys)"

fun str_items :: "json list \<Rightarrow> pyerr + ustring list" where
  "str_items [] = Inr []"
| "str_items (JStr s # xs) = bind_err (str_items xs) (\<lambda>ss. Inr (s # ss))"
| "str_items (_ # xs) = Inl TypeError"

definition py_join :: "ustring \<Rightarrow> json \<Rightarrow> pyerr + json" where
  "py_join sep items =
     bind_err (py_iter items) (\<lambda>xs. bind_err (str_items xs) (\<lambda>ss. Inr (JStr (join sep ss))))"

text \<open>
  A dictionary key has to be hashable; \<open>True\<close> and \<open>1\<close> (\<open>False\<close> and \<open>0\<close>) are the same key.
\<close>

fun dict_key :: "json \<Rightarrow> pyerr + json" where
  "dict_key (JArr xs) = Inl TypeError"
| "dict_key (JObj kvs) = Inl TypeError"
| "dict_key (JBool b) = Inr (JInt (if b then 1 else 0))"
| "dict_key k = Inr k"

text \<open>\<open>str(x)\<close>; the text of a list or dictionary comes from the runtime's \<open>repr\<close>.\<close>

fun digits :: "nat \<Rightarrow> ustring" where
  "digits n = (if n < 10 then [48 + n] else digits (n div 10) @ [48 + n mod 10])"

declare digits.simps [simp del]

definition str_int :: "int \<Rightarrow> ustring" where
  "str_int i = (if i < 0 then u ''-'' @ digits (nat (- i)) else digits (nat i))"

fun py_str :: "(json \<Rightarrow> ustring) \<Rightarrow> json \<Rightarrow> ustring" where
  "py_str r JNull = u ''None''"
| "py_str r (JBool b) = (if b then u ''True'' else u ''False'')"
| "py_str r (JInt i) = str_int i"
| "py_str r (JStr s) = s"
| "py_str r v = r v"

section \<open>The outside world\<close>

text \<open>
  Everything the handler does to its collaborators is recorded in a trace; what a
  collaborator answers in this invocation is given by the environment. A logged or
  alerted message is recorded as the template of its f-string.
\<close>

datatype action =
    LogError string
  | Alert string
  | SsmGetParameter string
  | CognitoGetUser json
  | CognitoUpdateUser json json json
  | SlackPost ustring ustring
  | DynamoQuery json
  | DynamoPutItem json ustring
  | SqsSendMessage json

type_synonym 'a io = "action list \<times> (pyerr + 'a)"

definition return_io :: "'a \<Rightarrow> 'a io" where
  "return_io x = ([], Inr x)"

definition raise_io :: "pyerr \<Rightarrow> 'a io" where
  "raise_io e = ([], Inl e)"

definition lift_io :: "pyerr + 'a \<Rightarrow> 'a io" where
  "lift_io r = ([], r)"

definition emit :: "action \<Rightarrow> unit io" where
  "emit a = ([a], Inr ())"

definition bind_io :: "'a io \<Rightarrow> ('a \<Rightarrow> 'b io) \<Rightarrow> 'b io" where
  "bind_io m f =
     (case snd m of
        Inl e \<Rightarrow> (fst m, Inl e)
      | Inr x \<Rightarrow> (fst m @ fst (f x), snd (f x)))"

text \<open>\<open>try: m except Exception as e: h e\<close>\<close>

definition try_except :: "'a io \<Rightarrow> (pyerr \<Rightarrow> 'a io) \<Rightarrow> 'a io" where
  "try_except m h =
     (case snd m of
        Inl e \<Rightarrow> (fst m @ fst (h e), snd (h e))
      | Inr x \<Rightarrow> m)"

record date =
  year :: int
  month :: int
  day :: int

text \<open>
  The environment of one invocation: the module's list of ignored ids; for each call to a
  collaborator, what it returns or the exception it raises; the functions of the runtime
  the code relies on (the JSON parser, the keyed digest with its encoding, \<open>repr\<close> of
  lists and dictionaries, the decimal digits of Unicode); and the current date.
\<close>

record env =
  ignore_field_ids :: "ustring list"
  alert_post :: "pyerr option"
  ssm_get_parameter :: "string \<Rightarrow> pyerr + ustring"
  hmac_sha256_base64 :: "ustring \<Rightarrow> ustring \<Rightarrow> pyerr + ustring"
  json_loads :: "ustring \<Rightarrow> pyerr + json"
  admin_get_user :: "json \<Rightarrow> pyerr + (ustring \<times> ustring) list"
  admin_update_user_attributes :: "json \<Rightarrow> json \<Rightarrow> json \<Rightarrow> pyerr option"
  slack_post :: "ustring \<Rightarrow> ustring \<Rightarrow> pyerr option"
  dynamodb_query :: "json \<Rightarrow> pyerr + bool"
  dynamodb_put_item :: "json \<Rightarrow> ustring \<Rightarrow> pyerr option"
  sqs_send_message :: "json \<Rightarrow> pyerr option"
  now :: date
  py_repr :: "json \<Rightarrow> ustring"
  unicode_digit :: "nat \<Rightarrow> nat option"

text \<open>
  \<open>send_error_to_slack\<close>: one POST to the alert webhook, not guarded by any \<open>try\<close>;
  an exception of the POST leaves the function. What the POST does is the environment's
  \<open>alert_post\<close>. The URL in the source is the literal \<open>YOUR_SLACK_WEBHOOK_URL_HERE\<close>,
  which has no scheme: with the code as it is, the POST raises \<open>MissingSchema\<close> on every
  call.
\<close>

definition send_error_to_slack :: "env \<Rightarrow> string \<Rightarrow> unit io" where
  "send_error_to_slack env error_message =
     bind_io (emit (Alert error_message))
       (\<lambda>_. case alert_post env of None \<Rightarrow> return_io () | Some e \<Rightarrow> raise_io e)"

text \<open>
  \<open>log_and_alert\<close>: the message is logged, and posted with the text of the error after
  it.
\<close>

definition log_and_alert :: "env \<Rightarrow> string \<Rightarrow> unit io" where
  "log_and_alert env message =
     bind_io (emit (LogError message))
       (\<lambda>_. send_error_to_slack env (message @ ''. Error: {error}''))"

section \<open>Answer extraction\<close>

text \<open>The module-level list of field ids (lines 290 to 304).\<close>

definition ignore_field_ids_literal :: "ustring list" where
  "ignore_field_ids_literal =
     [u ''hyZIUMruIaXZ'', u ''DG63NL7WQMQA'', u ''Yx4jU94HrZmO'', u ''kLdRBGA1phAA'',
      u ''SB28ys4LYLWo'', u ''54JOGweXXfUn'', u ''aDs7YLH9f0NP'', u ''cFB9zg6V03V1'',
      u ''jzD4M5NDiXE5'', u ''XoyWSU4xb6RZ'', u ''3o0DVt2WkDHX'', u ''Gr2JZAJzJJt1'',
      u ''4VITOv32D9hb'']"

text \<open>
  \<open>get_question_id_to_title\<close>: the assignment evaluates \<open>field['title']\<close>, then
  \<open>field['id']\<close>, then stores.
\<close>

fun title_loop :: "json list \<Rightarrow> pydict \<Rightarrow> pyerr + pydict" where
  "title_loop [] question_id_to_title = Inr question_id_to_title"
| "title_loop (field # more_fields) question_id_to_title =
     bind_err (subscript field (u ''title'')) (\<lambda>title.
     bind_err (subscript field (u ''id'')) (\<lambda>ident.
     bind_err (dict_key ident) (\<lambda>k.
       title_loop more_fields (AList.update k title question_id_to_title))))"

definition get_question_id_to_title :: "env \<Rightarrow> json \<Rightarrow> pydict io" where
  "get_question_id_to_title env data =
     try_except
       (lift_io (bind_err (subscript data (u ''fields'')) (\<lambda>fs.
                 bind_err (py_iter fs) (\<lambda>field_list. title_loop field_list []))))
       (\<lambda>e. bind_io (send_error_to_slack env ''Failed to get question id to title: {str(e)}'')
               (\<lambda>_. raise_io e))"

text \<open>The \<open>if\<close>/\<open>elif\<close> chain of \<open>map_question_id_to_answer\<close> (lines 324 to 349).\<close>

definition answer_value :: "env \<Rightarrow> json \<Rightarrow> pyerr + json" where
  "answer_value env answer =
     (if has_key answer (u ''text'') then subscript answer (u ''text'')
      else if has_key answer (u ''email'') then subscript answer (u ''email'')
      else if has_key answer (u ''phone_number'') then subscript answer (u ''phone_number'')
      else if has_key answer (u ''date'') then subscript answer (u ''date'')
      else if has_key answer (u ''choice'') then
        bind_err (subscript answer (u ''choice'')) (\<lambda>choice. subscript choice (u ''label''))
      else if has_key answer (u ''choices'') then
        bind_err (subscript answer (u ''choices'')) (\<lambda>choices.
        bind_err (subscript choices (u ''labels'')) (\<lambda>labels.
          if truthy labels then py_join (u '', '') labels
          else subscript choices (u ''other'')))
      else if has_key answer (u ''number'') then subscript answer (u ''number'')
      else if has_key answer (u ''boolean'') then subscript answer (u ''boolean'')
      else if has_key answer (u ''file'') then
        bind_err (subscript answer (u ''file'')) (\<lambda>file. subscript file (u ''url''))
      else if has_key answer (u ''payment'') then
        bind_err (subscript answer (u ''payment'')) (\<lambda>payment.
        bind_err (subscript payment (u ''successful'')) (\<lambda>successful.
          Inr (JStr (py_str (py_repr env) successful))))
      else if has_key answer (u ''url'') then subscript answer (u ''url'')
      else Inr (JStr (u ''Answer type not supported'')))"

text \<open>One round of the loop: the field id, the value, the store.\<close>

definition process_answer :: "env \<Rightarrow> json \<Rightarrow> pydict \<Rightarrow> pyerr + pydict" where
  "process_answer env answer question_id_to_answer =
     bind_err (subscript answer (u ''field'')) (\<lambda>field.
     bind_err (subscript field (u ''id'')) (\<lambda>question_id.
     bind_err (answer_value env answer) (\<lambda>v.
     bind_err (dict_key question_id) (\<lambda>k.
       Inr (AList.update k v question_id_to_answer)))))"

fun answer_loop :: "env \<Rightarrow> json list \<Rightarrow> pydict \<Rightarrow> pyerr + pydict" where
  "answer_loop env [] question_id_to_answer = Inr question_id_to_answer"
| "answer_loop env (answer # answers) question_id_to_answer =
     bind_err (process_answer env answer question_id_to_answer) (answer_loop env answers)"

definition map_question_id_to_answer :: "env \<Rightarrow> json \<Rightarrow> pydict io" where
  "map_question_id_to_answer env data =
     try_except
       (lift_io (bind_err (py_iter data) (\<lambda>answers. answer_loop env answers [])))
       (\<lambda>e. bind_io (log_and_alert env ''Failed to map question id to answer: {str(e)}'')
               (\<lambda>_. raise_io e))"

text \<open>The merge of titles and answers in the handler (lines 103 to 106).\<close>

fun merge_loop :: "pydict \<Rightarrow> pydict \<Rightarrow> pydict \<Rightarrow> pydict" where
  "merge_loop [] question_id_to_answer question_answer_pairs = question_answer_pairs"
| "merge_loop ((k, v) # items) question_id_to_answer question_answer_pairs =
     merge_loop items question_id_to_answer
       (AList.update k
          (JObj [(u ''title'', v),
                 (u ''answer'', case map_of question_id_to_answer k of
                                  None \<Rightarrow> JStr [] | Some a \<Rightarrow> a)])
          question_answer_pairs)"

definition merge_pairs :: "pydict \<Rightarrow> pydict \<Rightarrow> pydict" where
  "merge_pairs question_id_to_title question_id_to_answer =
     merge_loop question_id_to_title question_id_to_answer []"

text \<open>\<open>safe_get_answer\<close>: two \<open>get\<close> calls with defaults; \<open>get\<close> exists on dictionaries only.\<close>

definition dict_get :: "json \<Rightarrow> ustring \<Rightarrow> json \<Rightarrow> pyerr + json" where
  "dict_get obj k dflt =
     (case obj of
        JObj kvs \<Rightarrow> Inr (case map_of kvs k of None \<Rightarrow> dflt | Some v \<Rightarrow> v)
      | _ \<Rightarrow> Inl AttributeError)"

definition safe_get_answer :: "env \<Rightarrow> pydict \<Rightarrow> ustring \<Rightarrow> json io" where
  "safe_get_answer env question_answer_pairs question_id =
     try_except
       (lift_io
          (let answer_pair =
                 (case map_of question_answer_pairs (JStr question_id) of
                    None \<Rightarrow> JObj [(u ''answer'', JStr (u ''Not provided''))]
                  | Some p \<Rightarrow> p)
           in dict_get answer_pair (u ''answer'') (JStr (u ''Not provided''))))
       (\<lambda>e. bind_io (send_error_to_slack env ''Failed to get answer for question_id {question_id}: {str(e)}'')
               (\<lambda>_. raise_io e))"

text \<open>
  The data model of the specification: the eleven value shapes, the key each one is
  recognised by, and their precedence.
\<close>

datatype shape =
    Text | Email | PhoneNumber | DateShape | SingleChoice | MultiChoice
  | Number | Boolean | FileUrl | PaymentSuccess | Url

fun tag_of :: "shape \<Rightarrow> ustring" where
  "tag_of Text = u ''text''"
| "tag_of Email = u ''email''"
| "tag_of PhoneNumber = u ''phone_number''"
| "tag_of DateShape = u ''date''"
| "tag_of SingleChoice = u ''choice''"
| "tag_of MultiChoice = u ''choices''"
| "tag_of Number = u ''number''"
| "tag_of Boolean = u ''boolean''"
| "tag_of FileUrl = u ''file''"
| "tag_of PaymentSuccess = u ''payment''"
| "tag_of Url = u ''url''"

definition precedence :: "shape list" where
  "precedence =
     [Text, Email, PhoneNumber, DateShape, SingleChoice, MultiChoice,
      Number, Boolean, FileUrl, PaymentSuccess, Url]"

definition shapes_present :: "json \<Rightarrow> shape list" where
  "shapes_present answer = filter (\<lambda>s. has_key answer (tag_of s)) precedence"

text \<open>The normalised value of an answer read as one given shape, in the specification's words.\<close>

fun normalized :: "env \<Rightarrow> shape \<Rightarrow> json \<Rightarrow> pyerr + json" where
  "normalized env SingleChoice answer =
     bind_err (subscript answer (u ''choice'')) (\<lambda>c. subscript c (u ''label''))"
| "normalized env MultiChoice answer =
     bind_err (subscript answer (u ''choices'')) (\<lambda>c.
     bind_err (subscript c (u ''labels'')) (\<lambda>labels.
       if truthy labels then py_join (u '', '') labels else subscript c (u ''other'')))"
| "normalized env FileUrl answer =
     bind_err (subscript answer (u ''file'')) (\<lambda>f. subscript f (u ''url''))"
| "normalized env PaymentSuccess answer =
     bind_err (subscript answer (u ''payment'')) (\<lambda>p.
     bind_err (subscript p (u ''successful'')) (\<lambda>b. Inr (JStr (py_str (py_repr env) b))))"
| "normalized env s answer = subscript answer (tag_of s)"

definition spec_extract :: "env \<Rightarrow> json \<Rightarrow> pyerr + json" where
  "spec_extract env answer =
     (case shapes_present answer of
        [] \<Rightarrow> Inr (JStr (u ''Answer type not supported''))
      | s # _ \<Rightarrow> normalized env s answer)"

text \<open>The dictionary key under which an answer is stored: its \<open>field.id\<close>.\<close>

definition answer_key :: "json \<Rightarrow> pyerr + json" where
  "answer_key answer =
     bind_err (subscript answer (u ''field'')) (\<lambda>field.
     bind_err (subscript field (u ''id'')) dict_key)"

section \<open>Age\<close>

text \<open>
  \<open>datetime.strptime(s, "%Y-%m-%d")\<close>. The format compiles to the regular expression
  \<open>(\d\d\d\d)-(1[0-2]|0[1-9]|[1-9])-(3[0-1]|[1-2]\d|0[1-9]|[1-9]| [1-9])\<close>: \<open>\d\<close> is any
  decimal digit of Unicode (the table is the runtime's), a bracket is a range of ASCII.
  The first match is taken, the whole string has to be consumed, and the date has to exist.
\<close>

definition ascii_digit_between :: "nat \<Rightarrow> nat \<Rightarrow> nat \<Rightarrow> bool" where
  "ascii_digit_between lo hi c = (48 + lo \<le> c \<and> c \<le> 48 + hi)"

fun month_alternatives :: "ustring \<Rightarrow> (int \<times> ustring) list" where
  "month_alternatives s =
     (case s of
        a # b # r \<Rightarrow>
          (if a = 49 \<and> ascii_digit_between 0 2 b then [(10 + int (b - 48), r)] else []) @
          (if a = 48 \<and> ascii_digit_between 1 9 b then [(int (b - 48), r)] else []) @
          (if ascii_digit_between 1 9 a then [(int (a - 48), b # r)] else [])
      | [a] \<Rightarrow> (if ascii_digit_between 1 9 a then [(int (a - 48), [])] else [])
      | [] \<Rightarrow> [])"

fun day_alternatives :: "(nat \<Rightarrow> nat option) \<Rightarrow> ustring \<Rightarrow> (int \<times> ustring) list" where
  "day_alternatives dv s =
     (case s of
        a # b # r \<Rightarrow>
          (if a = 51 \<and> ascii_digit_between 0 1 b then [(30 + int (b - 48), r)] else []) @
          (if ascii_digit_between 1 2 a
           then (case dv b of Some v \<Rightarrow> [(10 * int (a - 48) + int v, r)] | None \<Rightarrow> [])
           else []) @
          (if a = 48 \<and> ascii_digit_between 1 9 b then [(int (b - 48), r)] else []) @
          (if ascii_digit_between 1 9 a then [(int (a - 48), b # r)] else []) @
          (if a = 32 \<and> ascii_digit_between 1 9 b then [(int (b - 48), r)] else [])
      | [a] \<Rightarrow> (if ascii_digit_between 1 9 a then [(int (a - 48), [])] else [])
      | [] \<Rightarrow> [])"

definition year_group :: "(nat \<Rightarrow> nat option) \<Rightarrow> ustring \<Rightarrow> (int \<times> ustring) list" where
  "year_group dv s =
     (case s of
        a # b # c # d # r \<Rightarrow>
          (case (dv a, dv b, dv c, dv d) of
             (Some va, Some vb, Some vc, Some vd) \<Rightarrow>
               [(1000 * int va + 100 * int vb + 10 * int vc + int vd, r)]
           | _ \<Rightarrow> [])
      | _ \<Rightarrow> [])"

definition hyphen :: "ustring \<Rightarrow> ustring list" where
  "hyphen s = (case s of c # r \<Rightarrow> (if c = 45 then [r] else []) | [] \<Rightarrow> [])"

text \<open>All matches of the expression at the start of the string, in the order the engine tries them.\<close>

definition regex_matches :: "(nat \<Rightarrow> nat option) \<Rightarrow> ustring \<Rightarrow> ((int \<times> int \<times> int) \<times> ustring) list" where
  "regex_matches dv s =
     concat (map (\<lambda>(y, r1).
       concat (map (\<lambda>r2.
         concat (map (\<lambda>(m, r3).
           concat (map (\<lambda>r4.
             map (\<lambda>(d, r5). ((y, m, d), r5)) (day_alternatives dv r4))
           (hyphen r3)))
         (month_alternatives r2)))
       (hyphen r1)))
     (year_group dv s))"

definition is_leap :: "int \<Rightarrow> bool" where
  "is_leap y = (y mod 4 = 0 \<and> (y mod 100 \<noteq> 0 \<or> y mod 400 = 0))"

definition days_in_month :: "int \<Rightarrow> int \<Rightarrow> int" where
  "days_in_month y m =
     (if m = 2 then (if is_leap y then 29 else 28)
      else if m = 4 \<or> m = 6 \<or> m = 9 \<or> m = 11 then 30 else 31)"

definition strptime_ymd :: "env \<Rightarrow> json \<Rightarrow> pyerr + date" where
  "strptime_ymd env data_string =
     (case data_string of
        JStr s \<Rightarrow>
          (case regex_matches (unicode_digit env) s of
             [] \<Rightarrow> Inl ValueError
           | ((y, m, d), rest) # _ \<Rightarrow>
               if rest \<noteq> [] then Inl ValueError
               else if y < 1 \<or> d < 1 \<or> days_in_month y m < d then Inl ValueError
               else Inr \<lparr>year = y, month = m, day = d\<rparr>)
      | _ \<Rightarrow> Inl TypeError)"

text \<open>
  Comparison of two pairs as Python compares tuples: the first position where they differ
  decides.
\<close>

definition tuple_less :: "int \<times> int \<Rightarrow> int \<times> int \<Rightarrow> bool" where
  "tuple_less a b = (if fst a \<noteq> fst b then fst a < fst b else snd a < snd b)"

definition calculate_age :: "env \<Rightarrow> json \<Rightarrow> int io" where
  "calculate_age env birthdate_str =
     try_except
       (lift_io
          (bind_err (strptime_ymd env birthdate_str) (\<lambda>birthdate.
             let current_date = now env
             in Inr (year current_date - year birthdate -
                     (if tuple_less (month current_date, day current_date)
                                    (month birthdate, day birthdate)
                      then 1 else 0)))))
       (\<lambda>e. bind_io (send_error_to_slack env ''Failed to calculate age for birthdate {birthdate_str}: {str(e)}'')
               (\<lambda>_. raise_io e))"

section \<open>Prompt composition\<close>

text \<open>A value interpolated into an f-string.\<close>

definition fmt :: "env \<Rightarrow> json \<Rightarrow> ustring" where
  "fmt env v = py_str (py_repr env) v"

definition format_cardio_detail ::
  "env \<Rightarrow> json \<Rightarrow> json \<Rightarrow> json \<Rightarrow> json \<Rightarrow> json \<Rightarrow> json \<Rightarrow> ustring" where
  "format_cardio_detail env first_name current_cardio include_cardio cardio_frequency
       cardio_length preferred_cardio_types =
     (if current_cardio = JStr (u ''Yes'') then
        u ''3. Cardio: '' @ fmt env first_name @
        u '' includes cardio in the workouts, doing '' @ fmt env cardio_frequency @
        u '' sessions of '' @ fmt env preferred_cardio_types @ u '' for '' @
        fmt env cardio_length @ u ''. ''
      else if include_cardio = JStr (u ''Yes'') then
        u ''3. Cardio: '' @ fmt env first_name @
        u '' plans to start including cardio in the sessions, aiming for '' @
        fmt env cardio_frequency @ u '' sessions of '' @ fmt env preferred_cardio_types @
        u '' for '' @ fmt env cardio_length @ u ''. ''
      else u ''3. Cardio: Don't include cardio in any plan. '')"

definition format_environment_detail ::
  "env \<Rightarrow> json \<Rightarrow> json \<Rightarrow> json \<Rightarrow> json \<Rightarrow> json \<Rightarrow> pyerr + ustring" where
  "format_environment_detail env first_name workout_location gym_name available_equipment
       other_equipment =
     (if workout_location = JStr (u ''Gym'') then
        Inr (u ''4. Environment: '' @ fmt env first_name @ u '' trains at '' @
             fmt env gym_name @ u ''. '')
      else
        bind_err
          (if truthy other_equipment
           then py_join (u '', '') (JArr [available_equipment, other_equipment])
           else Inr available_equipment)
          (\<lambda>equipment.
             Inr (u ''4. Environment: '' @ fmt env first_name @
                  u '' trains at home with access to '' @ fmt env equipment @ u ''. '')))"

definition format_injury_detail :: "env \<Rightarrow> json \<Rightarrow> json \<Rightarrow> json \<Rightarrow> ustring" where
  "format_injury_detail env first_name physical_injuries injury_details =
     (if physical_injuries = JStr (u ''Yes'') then
        u ''7. Injury: '' @ fmt env first_name @ u '' has reported '' @
        fmt env injury_details @ u ''. ''
      else [])"

definition format_sets_reps :: "json \<Rightarrow> json \<Rightarrow> json" where
  "format_sets_reps sets_reps sets_reps_custom =
     (if sets_reps = JStr (u ''I have a different style'') then sets_reps_custom
      else sets_reps)"

text \<open>The fourth line of the template (line 410): the weightlifting sentence.\<close>

definition weightlifting_sentence :: "env \<Rightarrow> json \<Rightarrow> json \<Rightarrow> json \<Rightarrow> ustring" where
  "weightlifting_sentence env weightlifting_duration number_of_exercises formatted_sets_reps =
     u ''Each session includes '' @ fmt env weightlifting_duration @
     u '' of weightlifting with '' @ fmt env number_of_exercises @
     u '' performed in '' @ fmt env formatted_sets_reps @ u ''. ''"

definition generate_prompt ::
  "env \<Rightarrow> json \<Rightarrow> json \<Rightarrow> int \<Rightarrow> json \<Rightarrow> json \<Rightarrow> json \<Rightarrow> json \<Rightarrow> json \<Rightarrow> json \<Rightarrow> json \<Rightarrow> json \<Rightarrow>
   json \<Rightarrow> json \<Rightarrow> json \<Rightarrow> json \<Rightarrow> json \<Rightarrow> json \<Rightarrow> json \<Rightarrow> json \<Rightarrow> json \<Rightarrow> json \<Rightarrow> json \<Rightarrow> json \<Rightarrow>
   json \<Rightarrow> json \<Rightarrow> pyerr + ustring" where
  "generate_prompt env first_name last_name age gender fitness_level height weight
       fitness_goals exercise_frequency workout_duration weightlifting_duration
       number_of_exercises sets_reps sets_reps_custom workout_location available_equipment
       current_cardio include_cardio cardio_frequency cardio_length preferred_cardio_types
       gym_name other_equipment physical_injuries injury_details =
     (let cardio_detail =
            format_cardio_detail env first_name current_cardio include_cardio
              cardio_frequency cardio_length preferred_cardio_types
      in bind_err
           (format_environment_detail env first_name workout_location gym_name
              available_equipment other_equipment)
           (\<lambda>environment_detail.
              let injury_detail = format_injury_detail env first_name physical_injuries
                                    injury_details;
                  formatted_sets_reps = format_sets_reps sets_reps sets_reps_custom
              in Inr
                (u ''Create a workout for '' @ fmt env first_name @ u '' '' @
                 fmt env last_name @ u '', '' @ str_int age @ u '' years old, '' @
                 fmt env gender @ u '', fitness level: '' @ fmt env fitness_level @
                 u '', height: '' @ fmt env height @ u '', weight: '' @ fmt env weight @
                 u '' lbs. '' @
                 u ''Fitness goals: '' @ fmt env fitness_goals @ u ''. '' @
                 u ''Training frequency: '' @ fmt env exercise_frequency @
                 u '' sessions/week, duration: '' @ fmt env workout_duration @
                 u '' per session. '' @
                 weightlifting_sentence env weightlifting_duration number_of_exercises
                   formatted_sets_reps @
                 cardio_detail @
                 environment_detail @
                 injury_detail @
                 u ''Based on '' @ fmt env first_name @
                 u '''s preferences, create a workout with a warm-up, main exercises, cardio (if included), and a cool-down.'')))"

section \<open>Emoji removal\<close>

text \<open>The character class of \<open>emoji_pattern\<close>, entry by entry.\<close>

definition emoji_pattern :: "nat \<Rightarrow> bool" where
  "emoji_pattern c =
     ((0x1F1E0 \<le> c \<and> c \<le> 0x1F1FF) \<or>
      (0x1F300 \<le> c \<and> c \<le> 0x1F5FF) \<or>
      (0x1F600 \<le> c \<and> c \<le> 0x1F64F) \<or>
      (0x1F680 \<le> c \<and> c \<le> 0x1F6FF) \<or>
      (0x1F700 \<le> c \<and> c \<le> 0x1F77F) \<or>
      (0x1F780 \<le> c \<and> c \<le> 0x1F7FF) \<or>
      (0x1F800 \<le> c \<and> c \<le> 0x1F8FF) \<or>
      (0x1F900 \<le> c \<and> c \<le> 0x1F9FF) \<or>
      (0x1FA00 \<le> c \<and> c \<le> 0x1FA6F) \<or>
      (0x1FA70 \<le> c \<and> c \<le> 0x1FAFF) \<or>
      (0x2702 \<le> c \<and> c \<le> 0x27B0) \<or>
      (0x24C2 \<le> c \<and> c \<le> 0x1F251) \<or>
      (0x1F926 \<le> c \<and> c \<le> 0x1F937) \<or>
      (0x10000 \<le> c \<and> c \<le> 0x10FFFF) \<or>
      c = 0x200D \<or>
      (0x2640 \<le> c \<and> c \<le> 0x2642) \<or>
      (0x2600 \<le> c \<and> c \<le> 0x2B55) \<or>
      c = 0x23CF \<or>
      c = 0x23E9 \<or>
      c = 0x231A \<or>
      c = 0x3030 \<or>
      c = 0xFE0F)"

text \<open>
  \<open>emoji_pattern.sub("", text)\<close>: every maximal run of characters of the class is
  replaced by the empty string.
\<close>

function remove_emojis :: "ustring \<Rightarrow> ustring" where
  "remove_emojis [] = []"
| "remove_emojis (c # cs) =
     (if emoji_pattern c then remove_emojis (dropWhile emoji_pattern cs)
      else c # remove_emojis cs)"
  by pat_completeness auto
termination
  by (relation "measure length") (auto simp: length_dropWhile_le less_Suc_eq_le)

section \<open>Signature\<close>

definition get_parameter :: "env \<Rightarrow> string \<Rightarrow> ustring io" where
  "get_parameter env name =
     try_except
       (bind_io (emit (SsmGetParameter name)) (\<lambda>_. lift_io (ssm_get_parameter env name)))
       (\<lambda>e. bind_io (send_error_to_slack env ''Failed to get parameter {name}: {str(e)}'')
               (\<lambda>_. raise_io e))"

text \<open>
  The digest and its encoding (\<open>bytes\<close>, \<open>hmac.new\<close>, \<open>base64.b64encode\<close>) are the
  runtime's; \<open>hmac_sha256_base64 env secret payload\<close> is the encoded digest, or the
  exception of the conversion to bytes.
\<close>

definition verify_signature :: "env \<Rightarrow> ustring \<Rightarrow> ustring \<Rightarrow> bool io" where
  "verify_signature env received_signature payload =
     try_except
       (bind_io (get_parameter env ''typeformSecret'') (\<lambda>WEBHOOK_SECRET.
        bind_io (lift_io (hmac_sha256_base64 env WEBHOOK_SECRET payload)) (\<lambda>encoded.
          return_io (encoded = received_signature))))
       (\<lambda>e. bind_io (emit (LogError ''Failed to verify signature: {str(e)}''))
               (\<lambda>_. return_io False))"

section \<open>The handler\<close>

text \<open>
  The event of the gateway: the raw body and the dictionary of headers. A response is a
  status code and, when there is a body, the text of its \<open>detail\<close>.
\<close>

record event =
  body :: ustring
  headers :: "(ustring \<times> ustring) list"

datatype response = Response (statusCode: int) (detail: "string option")

text \<open>\<open>try: m except Exception as e: return h e\<close>, followed by \<open>k\<close>.\<close>

definition try_except_else :: "'a io \<Rightarrow> (pyerr \<Rightarrow> 'b io) \<Rightarrow> ('a \<Rightarrow> 'b io) \<Rightarrow> 'b io" where
  "try_except_else m h k =
     (case snd m of
        Inl e \<Rightarrow> (fst m @ fst (h e), snd (h e))
      | Inr x \<Rightarrow> (fst m @ fst (k x), snd (k x)))"

text \<open>A call that returns nothing of interest, and a call that returns a value.\<close>

definition call_unit :: "action \<Rightarrow> pyerr option \<Rightarrow> unit io" where
  "call_unit a outcome =
     bind_io (emit a) (\<lambda>_. case outcome of None \<Rightarrow> return_io () | Some e \<Rightarrow> raise_io e)"

definition call_value :: "action \<Rightarrow> pyerr + 'a \<Rightarrow> 'a io" where
  "call_value a outcome = bind_io (emit a) (\<lambda>_. lift_io outcome)"

text \<open>\<open>s.split(sep, 1)\<close> when it has two parts.\<close>

fun split_once :: "nat \<Rightarrow> ustring \<Rightarrow> (ustring \<times> ustring) option" where
  "split_once sep [] = None"
| "split_once sep (c # cs) =
     (if c = sep then Some ([], cs)
      else (case split_once sep cs of
              None \<Rightarrow> None
            | Some (a, b) \<Rightarrow> Some (c # a, b)))"

definition get_cognito_user :: "env \<Rightarrow> json \<Rightarrow> (ustring \<times> ustring) list io" where
  "get_cognito_user env ident = call_value (CognitoGetUser ident) (admin_get_user env ident)"

fun get_cognito_user_attribute :: "(ustring \<times> ustring) list \<Rightarrow> ustring \<Rightarrow> json" where
  "get_cognito_user_attribute [] attribute_name = JNull"
| "get_cognito_user_attribute ((name, v) # attribute_list) attribute_name =
     (if name = attribute_name then JStr v
      else get_cognito_user_attribute attribute_list attribute_name)"

definition update_user :: "env \<Rightarrow> json \<Rightarrow> json \<Rightarrow> json \<Rightarrow> unit io" where
  "update_user env ident form_id token =
     call_unit (CognitoUpdateUser ident form_id token)
       (admin_update_user_attributes env ident form_id token)"

definition save_to_db :: "env \<Rightarrow> json \<Rightarrow> ustring \<Rightarrow> unit io" where
  "save_to_db env user_id prompt =
     bind_io (call_value (DynamoQuery user_id) (dynamodb_query env user_id)) (\<lambda>existing.
       if existing then return_io ()
       else call_unit (DynamoPutItem user_id prompt) (dynamodb_put_item env user_id prompt))"

definition send_to_slack :: "env \<Rightarrow> ustring \<Rightarrow> unit io" where
  "send_to_slack env prompt =
     try_except
       (bind_io (get_parameter env ''slackWebhookUrl'') (\<lambda>SLACK_WEBHOOK_URL.
          call_unit (SlackPost SLACK_WEBHOOK_URL prompt)
            (slack_post env SLACK_WEBHOOK_URL prompt)))
       (\<lambda>e. bind_io (send_error_to_slack env ''Failed to send message to Slack: {str(e)}'')
               (\<lambda>_. raise_io e))"

text \<open>Lines 95 to 165: from the parsed body to the prompt.\<close>

definition compose_prompt :: "env \<Rightarrow> json \<Rightarrow> json \<Rightarrow> json \<Rightarrow> ustring io" where
  "compose_prompt env parsed first_name last_name =
     bind_io (lift_io (bind_err (subscript parsed (u ''form_response''))
                (\<lambda>r. subscript r (u ''definition'')))) (\<lambda>form_definition.
     bind_io (lift_io (bind_err (subscript parsed (u ''form_response''))
                (\<lambda>r. subscript r (u ''answers'')))) (\<lambda>form_answers.
     bind_io (get_question_id_to_title env form_definition) (\<lambda>question_id_to_title.
     bind_io (map_question_id_to_answer env form_answers) (\<lambda>question_id_to_answer.
     let question_answer_pairs = merge_pairs question_id_to_title question_id_to_answer in
     bind_io (safe_get_answer env question_answer_pairs (u ''VYsICm8rAEYx'')) (\<lambda>birthdate.
     bind_io (calculate_age env birthdate) (\<lambda>age.
     bind_io (safe_get_answer env question_answer_pairs (u ''Ie0vINxRmbiE'')) (\<lambda>height.
     bind_io (safe_get_answer env question_answer_pairs (u ''U00Hv7HSJJE1'')) (\<lambda>weight.
     bind_io (safe_get_answer env question_answer_pairs (u ''7NgJc6n3fYKa'')) (\<lambda>gender.
     bind_io (safe_get_answer env question_answer_pairs (u ''EKEiaNAbhs9B'')) (\<lambda>fitness_goals.
     bind_io (safe_get_answer env question_answer_pairs (u ''dN0leyRXTKwb'')) (\<lambda>fitness_level.
     bind_io (safe_get_answer env question_answer_pairs (u ''v3luF8GH8oTn'')) (\<lambda>exercise_frequency.
     bind_io (safe_get_answer env question_answer_pairs (u ''4qftExcBXdrX'')) (\<lambda>workout_duration.
     bind_io (safe_get_answer env question_answer_pairs (u ''wORIrsd4ZVLR'')) (\<lambda>weightlifting_duration.
     bind_io (safe_get_answer env question_answer_pairs (u ''nY5mGGjAbXgZ'')) (\<lambda>number_of_exercises.
     bind_io (safe_get_answer env question_answer_pairs (u ''VYFQXGfIQyAy'')) (\<lambda>sets_reps.
     bind_io (safe_get_answer env question_answer_pairs (u ''hLOuuzKYATVt'')) (\<lambda>sets_reps_custom.
     bind_io (safe_get_answer env question_answer_pairs (u ''umri0ewHbWux'')) (\<lambda>workout_location.
     bind_io (safe_get_answer env question_answer_pairs (u ''fStabAHHt7Hw'')) (\<lambda>gym_name.
     bind_io (safe_get_answer env question_answer_pairs (u ''9CnfCXmUgSXo'')) (\<lambda>available_equipment.
     bind_io (safe_get_answer env question_answer_pairs (u ''F0T49AYX7sf2'')) (\<lambda>other_equipment.
     bind_io (safe_get_answer env question_answer_pairs (u ''zYfBaTZMNkFI'')) (\<lambda>current_cardio.
     bind_io (safe_get_answer env question_answer_pairs (u ''lKUgraPL2qDa'')) (\<lambda>include_cardio.
     bind_io (safe_get_answer env question_answer_pairs (u ''ZRYPo085Loaz'')) (\<lambda>cardio_frequency.
     bind_io (safe_get_answer env question_answer_pairs (u ''L5vTS0xxncEz'')) (\<lambda>cardio_length.
     bind_io (safe_get_answer env question_answer_pairs (u ''qu9e790LtDZh'')) (\<lambda>preferred_cardio_types.
     bind_io (safe_get_answer env question_answer_pairs (u ''zp6cr5EGryS5'')) (\<lambda>physical_injuries.
     bind_io (safe_get_answer env question_answer_pairs (u ''TDFLXROBWg4r'')) (\<lambda>injury_details.
     bind_io (lift_io
       (generate_prompt env first_name last_name age gender fitness_level height weight
          fitness_goals exercise_frequency workout_duration weightlifting_duration
          number_of_exercises sets_reps sets_reps_custom workout_location
          available_equipment current_cardio include_cardio cardio_frequency cardio_length
          preferred_cardio_types gym_name other_equipment physical_injuries
          injury_details)) (\<lambda>prompt.
     return_io (remove_emojis prompt))))))))))))))))))))))))))))))"

text \<open>Lines 166 to 185: notification, persistence, the downstream signal, the response.\<close>

definition deliver :: "env \<Rightarrow> json \<Rightarrow> ustring \<Rightarrow> response io" where
  "deliver env user_id prompt =
     bind_io (send_to_slack env prompt) (\<lambda>_.
     try_except_else (save_to_db env user_id prompt)
       (\<lambda>e. bind_io (log_and_alert env ''Unable to save user story to db'') (\<lambda>_.
               return_io (Response 200 (Some ''Unable to save user story to db.''))))
       (\<lambda>_.
          bind_io
            (try_except
               (call_unit (SqsSendMessage user_id) (sqs_send_message env user_id))
               (\<lambda>e. log_and_alert env
                       ''Unable to send initiate generate workout flow for user {user_id}''))
            (\<lambda>_. return_io (Response 200 None))))"

text \<open>Lines 64 to 93 and the rest: the user of the identity store, then the pipeline.\<close>

definition resolve_identity :: "env \<Rightarrow> json \<Rightarrow> json \<Rightarrow> json \<Rightarrow> json \<Rightarrow> response io" where
  "resolve_identity env parsed form_id token user_id =
     try_except_else (get_cognito_user env user_id)
       (\<lambda>e. if e = UserNotFoundException then
               bind_io
                 (log_and_alert env ''Failed to get user from cognito: User {user_id} not found.'')
                 (\<lambda>_. return_io (Response 200 (Some ''User not found.'')))
             else
               bind_io (log_and_alert env ''Failed to get user from cognito.'')
                 (\<lambda>_. return_io (Response 200 (Some ''User not found.''))))
       (\<lambda>cognito_user.
          let first_name = get_cognito_user_attribute cognito_user (u ''given_name'');
              last_name = get_cognito_user_attribute cognito_user (u ''family_name'')
          in try_except_else (update_user env user_id form_id token)
               (\<lambda>e. bind_io
                       (log_and_alert env ''Unable to update user {user_id} with typeformIds.'')
                       (\<lambda>_. return_io
                          (Response 200 (Some ''Unable to update user with typeformIds.''))))
               (\<lambda>_. bind_io (compose_prompt env parsed first_name last_name)
                       (deliver env user_id)))"

text \<open>Lines 57 to 60: the parsed body and the three identifiers read from it.\<close>

definition process_verified :: "env \<Rightarrow> ustring \<Rightarrow> response io" where
  "process_verified env raw_body =
     bind_io (lift_io (json_loads env raw_body)) (\<lambda>parsed.
     bind_io (lift_io (bind_err (subscript parsed (u ''form_response''))
                (\<lambda>r. subscript r (u ''form_id'')))) (\<lambda>form_id.
     bind_io (lift_io (bind_err (subscript parsed (u ''form_response''))
                (\<lambda>r. subscript r (u ''token'')))) (\<lambda>token.
     bind_io (lift_io (bind_err (subscript parsed (u ''form_response''))
                (\<lambda>r. bind_err (subscript r (u ''hidden''))
                (\<lambda>h. subscript h (u ''user_id''))))) (\<lambda>user_id.
       resolve_identity env parsed form_id token user_id))))"

definition lambda_handler :: "env \<Rightarrow> event \<Rightarrow> response io" where
  "lambda_handler env ev =
     (let raw_body = body ev;
          received_signature = map_of (headers ev) (u ''Typeform-Signature'')
      in if (case received_signature of None \<Rightarrow> True | Some s \<Rightarrow> s = []) then
           bind_io (log_and_alert env ''Webhook signature is missing. Permission denied.'')
             (\<lambda>_. return_io (Response 403 (Some ''Permission denied.'')))
         else
           (case split_once 61 (the received_signature) of
              None \<Rightarrow> raise_io ValueError
            | Some (sha_name, signature) \<Rightarrow>
                if sha_name \<noteq> u ''sha256'' then
                  bind_io (log_and_alert env ''Webhook sha is invalid. Permission denied.'')
                    (\<lambda>_. return_io (Response 403 (Some ''Operation not supported.'')))
                else
                  bind_io (verify_signature env signature raw_body) (\<lambda>is_valid.
                    if \<not> is_valid then
                      bind_io
                        (log_and_alert env ''Webhook signature is invalid. Permission denied.'')
                        (\<lambda>_. return_io
                           (Response 403 (Some ''Invalid signature. Permission Denied.'')))
                    else process_verified env raw_body)))"

section \<open>Notions used in the statements\<close>

text \<open>The entry the merge builds for one field.\<close>

definition pair_of :: "json \<Rightarrow> pydict \<Rightarrow> json \<Rightarrow> json" where
  "pair_of title question_id_to_answer k =
     JObj [(u ''title'', title),
           (u ''answer'', case map_of question_id_to_answer k of None \<Rightarrow> JStr [] | Some a \<Rightarrow> a)]"

text \<open>Facts saying that a function does not read the module's list of ignored ids.\<close>

named_theorems ignore_free

text \<open>The value of \<open>sets_reps\<close> that selects the custom text.\<close>

definition sentinel :: ustring where
  "sentinel = u ''I have a different style''"

text \<open>
  The conditions under which the handler gets past the signature and past the reading of
  the identifiers, and traces without a message to the queue.
\<close>

definition signature_accepted :: "env \<Rightarrow> event \<Rightarrow> bool" where
  "signature_accepted env ev =
     (case map_of (headers ev) (u ''Typeform-Signature'') of
        None \<Rightarrow> False
      | Some s \<Rightarrow>
          (case split_once 61 s of
             None \<Rightarrow> False
           | Some (sha_name, signature) \<Rightarrow>
               sha_name = u ''sha256'' \<and>
               snd (verify_signature env signature (body ev)) = Inr True))"

definition request_ids :: "env \<Rightarrow> ustring \<Rightarrow> (json \<times> json \<times> json \<times> json) option" where
  "request_ids env raw_body =
     (case json_loads env raw_body of
        Inl e \<Rightarrow> None
      | Inr parsed \<Rightarrow>
          (case bind_err (subscript parsed (u ''form_response''))
                  (\<lambda>r. subscript r (u ''form_id'')) of
             Inl e \<Rightarrow> None
           | Inr form_id \<Rightarrow>
               (case bind_err (subscript parsed (u ''form_response''))
                       (\<lambda>r. subscript r (u ''token'')) of
                  Inl e \<Rightarrow> None
                | Inr token \<Rightarrow>
                    (case bind_err (subscript parsed (u ''form_response''))
                            (\<lambda>r. bind_err (subscript r (u ''hidden''))
                            (\<lambda>h. subscript h (u ''user_id''))) of
                       Inl e \<Rightarrow> None
                     | Inr user_id \<Rightarrow> Some (parsed, form_id, token, user_id)))))"

definition silent :: "'a io \<Rightarrow> bool" where
  "silent m = (\<forall>x. SqsSendMessage x \<notin> set (fst m))"

section \<open>A sample environment\<close>

text \<open>
  An environment in which every collaborator answers, used to run the definitions on
  concrete inputs.
\<close>

definition ascii_digit :: "nat \<Rightarrow> nat option" where
  "ascii_digit c = (if 48 \<le> c \<and> c \<le> 57 then Some (c - 48) else None)"

definition sample_env :: env where
  "sample_env =
     \<lparr> ignore_field_ids = ignore_field_ids_literal,
       alert_post = None,
       ssm_get_parameter = (\<lambda>name. Inr (u ''secret'')),
       hmac_sha256_base64 = (\<lambda>secret payload. Inr (secret @ payload)),
       json_loads = (\<lambda>s. Inl JSONDecodeError),
       admin_get_user = (\<lambda>ident. Inr [(u ''given_name'', u ''Ada''), (u ''family_name'', u ''Byron'')]),
       admin_update_user_attributes = (\<lambda>ident form_id token. None),
       slack_post = (\<lambda>url prompt. None),
       dynamodb_query = (\<lambda>user_id. Inr False),
       dynamodb_put_item = (\<lambda>user_id prompt. None),
       sqs_send_message = (\<lambda>user_id. None),
       now = \<lparr>year = 2024, month = 6, day = 14\<rparr>,
       py_repr = (\<lambda>v. []),
       unicode_digit = ascii_digit \<rparr>"

section \<open>Sample inputs\<close>

definition text_answer :: json where
  "text_answer =
     JObj [(u ''field'', JObj [(u ''id'', JStr (u ''q1''))]),
           (u ''text'', JStr (u ''hello''))]"

text \<open>An answer to the field with the given id, with the given further entries.\<close>

definition tagged :: "string \<Rightarrow> (ustring \<times> json) list \<Rightarrow> json" where
  "tagged question_id entries = JObj ((u ''field'', JObj [(u ''id'', JStr (u question_id))]) # entries)"

definition all_shapes :: "json list" where
  "all_shapes =
     [tagged ''s01'' [(u ''text'', JStr (u ''hello''))],
      tagged ''s02'' [(u ''email'', JStr (u ''ada@example.org''))],
      tagged ''s03'' [(u ''phone_number'', JStr (u ''+15550100''))],
      tagged ''s04'' [(u ''date'', JStr (u ''1990-06-15''))],
      tagged ''s05'' [(u ''choice'', JObj [(u ''label'', JStr (u ''Gym''))])],
      tagged ''s06'' [(u ''choices'', JObj [(u ''labels'', JArr [JStr (u ''A''), JStr (u ''B'')])])],
      tagged ''s07'' [(u ''number'', JInt 7)],
      tagged ''s08'' [(u ''boolean'', JBool True)],
      tagged ''s09'' [(u ''file'', JObj [(u ''url'', JStr (u ''https://files.example/1''))])],
      tagged ''s10'' [(u ''payment'', JObj [(u ''successful'', JBool True)])],
      tagged ''s11'' [(u ''url'', JStr (u ''https://example.org''))],
      tagged ''s12'' [(u ''email'', JStr (u ''second'')), (u ''text'', JStr (u ''first''))],
      tagged ''s13'' [(u ''ranking'', JInt 3)]]"

definition all_shapes_extracted :: pydict where
  "all_shapes_extracted =
     [(JStr (u ''s01''), JStr (u ''hello'')),
      (JStr (u ''s02''), JStr (u ''ada@example.org'')),
      (JStr (u ''s03''), JStr (u ''+15550100'')),
      (JStr (u ''s04''), JStr (u ''1990-06-15'')),
      (JStr (u ''s05''), JStr (u ''Gym'')),
      (JStr (u ''s06''), JStr (u ''A, B'')),
      (JStr (u ''s07''), JInt 7),
      (JStr (u ''s08''), JBool True),
      (JStr (u ''s09''), JStr (u ''https://files.example/1'')),
      (JStr (u ''s10''), JStr (u ''True'')),
      (JStr (u ''s11''), JStr (u ''https://example.org'')),
      (JStr (u ''s12''), JStr (u ''first'')),
      (JStr (u ''s13''), JStr (u ''Answer type not supported''))]"

definition ab_choices_answer :: json where
  "ab_choices_answer =
     JObj [(u ''field'', JObj [(u ''id'', JStr (u ''q3''))]),
           (u ''choices'', JObj [(u ''labels'', JArr [JStr (u ''A''), JStr (u ''B'')])])]"

definition other_choices_answer :: json where
  "other_choices_answer =
     JObj [(u ''field'', JObj [(u ''id'', JStr (u ''q4''))]),
           (u ''choices'', JObj [(u ''labels'', JArr []), (u ''other'', JStr (u ''Custom''))])]"

definition empty_choices_answer :: "json \<Rightarrow> json" where
  "empty_choices_answer question_id =
     JObj [(u ''field'', JObj [(u ''id'', question_id)]),
           (u ''choices'', JObj [(u ''labels'', JArr [])])]"

definition sample_definition :: json where
  "sample_definition =
     JObj [(u ''fields'',
            JArr [JObj [(u ''id'', JStr (u ''q1'')), (u ''title'', JStr (u ''Your name''))],
                  JObj [(u ''id'', JStr (u ''hyZIUMruIaXZ'')), (u ''title'', JStr (u ''Welcome''))]])]"

definition sample_titles :: pydict where
  "sample_titles =
     [(JStr (u ''q1''), JStr (u ''Your name'')), (JStr (u ''hyZIUMruIaXZ''), JStr (u ''Welcome''))]"

definition unsigned_event :: event where
  "unsigned_event = \<lparr> body = u ''{}'', headers = [] \<rparr>"

definition pyramid_prompt :: "pyerr + ustring" where
  "pyramid_prompt =
     generate_prompt sample_env (JStr (u ''Ada'')) (JStr (u ''Byron'')) 33 (JStr (u ''Female''))
       (JStr (u ''Intermediate'')) (JStr (u ''170 cm'')) (JStr (u ''140''))
       (JStr (u ''Build strength'')) (JStr (u ''4'')) (JStr (u ''60 minutes''))
       (JStr (u ''45 minutes'')) (JStr (u ''5 exercises''))
       (JStr (u ''I have a different style'')) (JStr (u ''Pyramid sets''))
       (JStr (u ''Gym'')) (JStr (u ''Not provided'')) (JStr (u ''Yes'')) (JStr (u ''Not provided''))
       (JStr (u ''3'')) (JStr (u ''20 minutes'')) (JStr (u ''Running''))
       (JStr (u ''Iron House'')) (JStr (u ''Not provided'')) (JStr (u ''No''))
       (JStr (u ''Not provided''))"

definition birthdate_answer :: json where
  "birthdate_answer =
     JObj [(u ''field'', JObj [(u ''id'', JStr (u ''VYsICm8rAEYx''))]),
           (u ''date'', JStr (u ''1990-06-15''))]"

definition birthdate_definition :: json where
  "birthdate_definition =
     JObj [(u ''fields'',
            JArr [JObj [(u ''id'', JStr (u ''VYsICm8rAEYx'')),
                        (u ''title'', JStr (u ''Date of birth''))]])]"

definition signed_body :: json where
  "signed_body =
     JObj [(u ''form_response'',
            JObj [(u ''form_id'', JStr (u ''form-1'')),
                  (u ''token'', JStr (u ''token-1'')),
                  (u ''hidden'', JObj [(u ''user_id'', JStr (u ''user-1''))]),
                  (u ''definition'', birthdate_definition),
                  (u ''answers'', JArr [birthdate_answer])])]"

definition signed_event :: event where
  "signed_event =
     \<lparr> body = u ''payload'',
       headers = [(u ''Typeform-Signature'', u ''sha256=secretpayload'')] \<rparr>"

definition serving_env :: env where
  "serving_env = sample_env\<lparr>json_loads := (\<lambda>s. Inr signed_body)\<rparr>"

definition md5_event :: event where
  "md5_event = \<lparr> body = u ''payload'', headers = [(u ''Typeform-Signature'', u ''md5=abc'')] \<rparr>"

definition bare_event :: event where
  "bare_event = \<lparr> body = u ''payload'', headers = [(u ''Typeform-Signature'', u ''md5'')] \<rparr>"

definition forged_event :: event where
  "forged_event =
     \<lparr> body = u ''payload'', headers = [(u ''Typeform-Signature'', u ''sha256=forged'')] \<rparr>"

definition missing_user_env :: env where
  "missing_user_env = serving_env\<lparr>admin_get_user := (\<lambda>ident. Inl UserNotFoundException)\<rparr>"

definition db_down_env :: env where
  "db_down_env = serving_env\<lparr>dynamodb_query := (\<lambda>user_id. Inl ClientError)\<rparr>"

definition queue_down_env :: env where
  "queue_down_env = serving_env\<lparr>sqs_send_message := (\<lambda>user_id. Some ClientError)\<rparr>"

definition alert_down_env :: env where
  "alert_down_env = sample_env\<lparr>alert_post := Some MissingSchema\<rparr>"

definition birthdate_only_prompt :: ustring where
  "birthdate_only_prompt =
     u ''Create a workout for Ada Byron, 33 years old, Not provided, fitness level: Not provided, height: Not provided, weight: Not provided lbs. '' @
     u ''Fitness goals: Not provided. '' @
     u ''Training frequency: Not provided sessions/week, duration: Not provided per session. '' @
     u ''Each session includes Not provided of weightlifting with Not provided performed in Not provided. '' @
     u ''3. Cardio: Don't include cardio in any plan. '' @
     u ''4. Environment: Ada trains at home with access to Not provided, Not provided. '' @
     u ''Based on Ada's preferences, create a workout with a warm-up, main exercises, cardio (if included), and a cool-down.''"

definition incomplete_choices_body :: json where
  "incomplete_choices_body =
     JObj [(u ''form_response'',
            JObj [(u ''form_id'', JStr (u ''form-1'')),
                  (u ''token'', JStr (u ''token-1'')),
                  (u ''hidden'', JObj [(u ''user_id'', JStr (u ''user-1''))]),
                  (u ''definition'', birthdate_definition),
                  (u ''answers'', JArr [empty_choices_answer (JStr (u ''q5''))])])]"

definition incomplete_choices_env :: env where
  "incomplete_choices_env = sample_env\<lparr>json_loads := (\<lambda>s. Inr incomplete_choices_body)\<rparr>"

section \<open>Properties of the extraction\<close>

lemma u_eq_iff [simp]: "u a = u b \<longleftrightarrow> a = b"
  by (auto simp: u_def inj_on_def dest!: map_inj_on[where f="of_char :: char \<Rightarrow> nat"])

lemma u_append: "u a @ u b = u (a @ b)"
  by (simp add: u_def)

lemma case_filter_Cons:
  "(case filter P (x # xs) of [] \<Rightarrow> a | s # _ \<Rightarrow> f s) =
   (if P x then f x else (case filter P xs of [] \<Rightarrow> a | s # _ \<Rightarrow> f s))"
  by simp

lemma answer_value_spec: "answer_value env answer = spec_extract env answer"
  unfolding answer_value_def spec_extract_def shapes_present_def precedence_def
  by (simp add: case_filter_Cons del: filter.simps)

lemma process_answer_Inr:
  "process_answer env a d = Inr d' \<longleftrightarrow>
     (\<exists>k v. answer_key a = Inr k \<and> spec_extract env a = Inr v \<and> d' = AList.update k v d)"
  by (auto simp: process_answer_def answer_key_def bind_err_def answer_value_spec split: sum.splits)

lemma process_answer_isl:
  "isl (process_answer env a d) \<longleftrightarrow> isl (answer_key a) \<or> isl (spec_extract env a)"
  by (auto simp: process_answer_def answer_key_def bind_err_def answer_value_spec split: sum.splits)

lemma answer_loop_isl:
  "isl (answer_loop env as d) \<longleftrightarrow> (\<exists>a\<in>set as. isl (answer_key a) \<or> isl (spec_extract env a))"
proof (induction as arbitrary: d)
  case Nil
  show ?case by simp
next
  case (Cons a as)
  show ?case
  proof (cases "process_answer env a d")
    case (Inl e)
    then have "isl (process_answer env a d)" by simp
    with process_answer_isl[of env a d] have "isl (answer_key a) \<or> isl (spec_extract env a)" by blast
    with Inl show ?thesis by (auto simp add: bind_err_def)
  next
    case (Inr d')
    then have "\<not> isl (process_answer env a d)" by simp
    with process_answer_isl[of env a d] have "\<not> (isl (answer_key a) \<or> isl (spec_extract env a))" by blast
    with Inr Cons.IH[of d'] show ?thesis by (auto simp add: bind_err_def)
  qed
qed

lemma answer_loop_untouched:
  "answer_loop env as d = Inr d' \<Longrightarrow> \<forall>a\<in>set as. answer_key a \<noteq> Inr k \<Longrightarrow> map_of d' k = map_of d k"
proof (induction as arbitrary: d)
  case Nil
  then show ?case by simp
next
  case (Cons a as)
  from Cons.prems(1) obtain d1 where d1: "process_answer env a d = Inr d1" "answer_loop env as d1 = Inr d'"
    by (auto simp: bind_err_def split: sum.splits)
  from d1(1) obtain k' v where kv: "answer_key a = Inr k'" "d1 = AList.update k' v d"
    by (auto simp: process_answer_Inr)
  from Cons.prems(2) kv(1) have "k' \<noteq> k" by auto
  then have "map_of d1 k = map_of d k" by (simp add: kv(2) update_conv')
  moreover have "map_of d' k = map_of d1 k" using Cons.IH[OF d1(2)] Cons.prems(2) by simp
  ultimately show ?case by simp
qed

lemma answer_loop_append:
  "answer_loop env (xs @ ys) d = bind_err (answer_loop env xs d) (answer_loop env ys)"
  by (induction xs arbitrary: d) (auto simp: bind_err_def split: sum.splits)

lemma answer_loop_last:
  assumes "answer_loop env (pre @ a # post) d = Inr d'"
      and "\<forall>b\<in>set post. answer_key b \<noteq> answer_key a"
  shows "\<exists>k v. answer_key a = Inr k \<and> spec_extract env a = Inr v \<and> map_of d' k = Some v"
proof -
  from assms(1) obtain d1 d2 where
    s: "answer_loop env pre d = Inr d1" "process_answer env a d1 = Inr d2" "answer_loop env post d2 = Inr d'"
    by (auto simp: answer_loop_append bind_err_def split: sum.splits)
  from s(2) obtain k v where kv: "answer_key a = Inr k" "spec_extract env a = Inr v" "d2 = AList.update k v d1"
    by (auto simp: process_answer_Inr)
  from assms(2) kv(1) have "\<forall>b\<in>set post. answer_key b \<noteq> Inr k" by simp
  from answer_loop_untouched[OF s(3) this] have "map_of d' k = Some v"
    by (simp add: kv(3) update_conv')
  with kv show ?thesis by blast
qed

lemma map_question_id_to_answer_Inr:
  "map_question_id_to_answer env (JArr answers) = (t, Inr d) \<longleftrightarrow> t = [] \<and> answer_loop env answers [] = Inr d"
  by (auto simp: map_question_id_to_answer_def try_except_def lift_io_def bind_err_def bind_io_def raise_io_def split: sum.splits)

lemma map_question_id_to_answer_isl:
  "isl (snd (map_question_id_to_answer env (JArr answers))) \<longleftrightarrow> isl (answer_loop env answers [])"
  by (auto simp: map_question_id_to_answer_def try_except_def lift_io_def bind_err_def bind_io_def raise_io_def split: sum.splits)

lemma spec_extract_cases:
  "spec_extract env a = Inr v \<longleftrightarrow>
     (case shapes_present a of [] \<Rightarrow> v = JStr (u ''Answer type not supported'')
      | s # _ \<Rightarrow> normalized env s a = Inr v)"
  by (auto simp: spec_extract_def split: list.splits)

lemma spec_extract_isl:
  "\<not> isl (spec_extract env a) \<longleftrightarrow>
     (case shapes_present a of [] \<Rightarrow> True | s # _ \<Rightarrow> \<not> isl (normalized env s a))"
  by (auto simp: spec_extract_def split: list.splits)

text \<open>
  C1: the value stored for an answer is decided by the first of the eleven tags, in the
  order text, email, phone_number, date, choice, choices, number, boolean, file, payment,
  url, that is a key of the answer: the tag's value, the label of the choice, the joined
  labels or the free text of the choices, the url of the file, the payment's \<open>successful\<close>
  as a string. An answer with none of the tags is stored as \<open>Answer type not supported\<close>
  and never makes the extraction fail. The extraction as a whole succeeds exactly when
  every answer has a usable field id and a value; the stored entry is that of the last
  answer with the key.
\<close>

theorem extraction_by_precedence:
  "(\<not> isl (snd (map_question_id_to_answer env (JArr answers))) \<longleftrightarrow>
      (\<forall>a\<in>set answers. \<not> isl (answer_key a) \<and>
         (case shapes_present a of [] \<Rightarrow> True | s # _ \<Rightarrow> \<not> isl (normalized env s a)))) \<and>
   (map_question_id_to_answer env (JArr (pre @ answer # post)) = (t, Inr d) \<and>
    (\<forall>b\<in>set post. answer_key b \<noteq> answer_key answer) \<longrightarrow>
      (\<exists>k v. answer_key answer = Inr k \<and> map_of d k = Some v \<and>
         (case shapes_present answer of
            [] \<Rightarrow> v = JStr (u ''Answer type not supported'')
          | s # _ \<Rightarrow> normalized env s answer = Inr v)))"
proof (intro conjI impI)
  show "\<not> isl (snd (map_question_id_to_answer env (JArr answers))) \<longleftrightarrow>
      (\<forall>a\<in>set answers. \<not> isl (answer_key a) \<and>
         (case shapes_present a of [] \<Rightarrow> True | s # _ \<Rightarrow> \<not> isl (normalized env s a)))"
    unfolding map_question_id_to_answer_isl answer_loop_isl spec_extract_isl[symmetric]
    by blast
next
  assume h: "map_question_id_to_answer env (JArr (pre @ answer # post)) = (t, Inr d) \<and>
    (\<forall>b\<in>set post. answer_key b \<noteq> answer_key answer)"
  then have "answer_loop env (pre @ answer # post) [] = Inr d"
    by (simp add: map_question_id_to_answer_Inr)
  from answer_loop_last[OF this] h
  obtain k v where "answer_key answer = Inr k" "spec_extract env answer = Inr v" "map_of d k = Some v"
    by blast
  then show "\<exists>k v. answer_key answer = Inr k \<and> map_of d k = Some v \<and>
         (case shapes_present answer of
            [] \<Rightarrow> v = JStr (u ''Answer type not supported'')
          | s # _ \<Rightarrow> normalized env s answer = Inr v)"
    by (auto simp: spec_extract_cases)
qed

lemma text_answer_key: "answer_key text_answer = Inr (JStr (u ''q1''))"
  by (simp add: answer_key_def text_answer_def bind_err_def)

lemma all_shapes_run:
  "map_question_id_to_answer sample_env (JArr all_shapes) = ([], Inr all_shapes_extracted)"
  by (simp add: map_question_id_to_answer_def try_except_def lift_io_def bind_err_def
        process_answer_def answer_value_def all_shapes_def all_shapes_extracted_def tagged_def
        py_join_def u_append)

lemma all_shapes_last:
  "all_shapes = butlast all_shapes @ tagged ''s13'' [(u ''ranking'', JInt 3)] # []"
  by (simp add: all_shapes_def)

lemma unknown_shape:
  "shapes_present (tagged ''s13'' [(u ''ranking'', JInt 3)]) = []"
  "answer_key (tagged ''s13'' [(u ''ranking'', JInt 3)]) = Inr (JStr (u ''s13''))"
  by (simp_all add: shapes_present_def precedence_def tagged_def answer_key_def bind_err_def)

theorem extraction_by_precedence_witness:
  "map_question_id_to_answer sample_env (JArr all_shapes) = ([], Inr all_shapes_extracted) \<and>
   \<not> isl (snd (map_question_id_to_answer sample_env (JArr all_shapes))) \<and>
   map_of all_shapes_extracted (JStr (u ''s13'')) = Some (JStr (u ''Answer type not supported''))"
proof -
  note w = extraction_by_precedence [where env = sample_env and answers = all_shapes
      and pre = "butlast all_shapes" and answer = "tagged ''s13'' [(u ''ranking'', JInt 3)]"
      and post = "[]" and t = "[]" and d = all_shapes_extracted]
  from w have "\<exists>k v. Inr (JStr (u ''s13'')) = Inr k \<and> map_of all_shapes_extracted k = Some v \<and>
      v = JStr (u ''Answer type not supported'')"
    unfolding all_shapes_last[symmetric] unknown_shape by (simp add: all_shapes_run)
  then have "map_of all_shapes_extracted (JStr (u ''s13'')) = Some (JStr (u ''Answer type not supported''))"
    by auto
  then show ?thesis by (simp add: all_shapes_run)
qed

lemma str_items_strings: "str_items (map JStr ls) = Inr ls"
  by (induction ls) (simp_all add: bind_err_def)

lemma py_join_strings: "py_join sep (JArr (map JStr ls)) = Inr (JStr (join sep ls))"
  by (simp add: py_join_def bind_err_def str_items_strings)

lemma shapes_present_head:
  "shapes_present answer = s # rest \<Longrightarrow> spec_extract env answer = normalized env s answer"
  by (simp add: spec_extract_def)

text \<open>
  C2: for an answer whose first tag is \<open>choices\<close> and whose labels are a list of strings,
  the value is the labels joined with a comma and a space when there is a label, and the
  \<open>other\<close> entry of the choices when the list is empty. Labels A and B give \<open>A, B\<close>;
  no labels and \<open>other\<close> Custom give \<open>Custom\<close>.
\<close>

theorem multi_choice_join:
  assumes "shapes_present answer = MultiChoice # rest"
      and "subscript answer (u ''choices'') = Inr choices"
      and "subscript choices (u ''labels'') = Inr (JArr (map JStr labels))"
  shows "answer_value env answer =
           (if labels \<noteq> [] then Inr (JStr (join (u '', '') labels))
            else subscript choices (u ''other''))"
proof -
  have "answer_value env answer = normalized env MultiChoice answer"
    using assms(1) by (simp add: answer_value_spec shapes_present_head)
  also have "\<dots> = (if labels \<noteq> [] then Inr (JStr (join (u '', '') labels))
            else subscript choices (u ''other''))"
    using assms(2,3) by (simp add: bind_err_def py_join_strings)
  finally show ?thesis .
qed

lemma ab_choices_shape: "shapes_present ab_choices_answer = [MultiChoice]"
  by (simp add: shapes_present_def precedence_def ab_choices_answer_def)
lemma other_choices_shape: "shapes_present other_choices_answer = [MultiChoice]"
  by (simp add: shapes_present_def precedence_def other_choices_answer_def)


lemma ab_choices_parts:
  "subscript ab_choices_answer (u ''choices'') =
     Inr (JObj [(u ''labels'', JArr [JStr (u ''A''), JStr (u ''B'')])])"
  "subscript (JObj [(u ''labels'', JArr [JStr (u ''A''), JStr (u ''B'')])]) (u ''labels'') =
     Inr (JArr (map JStr [u ''A'', u ''B'']))"
  by (simp_all add: ab_choices_answer_def)

lemma other_choices_parts:
  "subscript other_choices_answer (u ''choices'') =
     Inr (JObj [(u ''labels'', JArr []), (u ''other'', JStr (u ''Custom''))])"
  "subscript (JObj [(u ''labels'', JArr []), (u ''other'', JStr (u ''Custom''))]) (u ''labels'') =
     Inr (JArr (map JStr []))"
  "subscript (JObj [(u ''labels'', JArr []), (u ''other'', JStr (u ''Custom''))]) (u ''other'') =
     Inr (JStr (u ''Custom''))"
  by (simp_all add: other_choices_answer_def)

theorem multi_choice_join_witness:
  "answer_value sample_env ab_choices_answer = Inr (JStr (u ''A, B'')) \<and>
   answer_value sample_env other_choices_answer = Inr (JStr (u ''Custom''))"
  using multi_choice_join [OF ab_choices_shape ab_choices_parts, of sample_env]
        multi_choice_join [OF other_choices_shape other_choices_parts(1,2), of sample_env]
  by (simp add: u_append other_choices_parts(3))

section \<open>Properties of the merge and of the lookup\<close>

lemma title_loop_distinct:
  "title_loop fs d = Inr d' \<Longrightarrow> distinct (map fst d) \<Longrightarrow> distinct (map fst d')"
proof (induction fs arbitrary: d)
  case Nil
  then show ?case by simp
next
  case (Cons f fs)
  from Cons.prems(1) obtain title k where
    "title_loop fs (AList.update k title d) = Inr d'"
    by (auto simp: bind_err_def split: sum.splits)
  moreover have "distinct (map fst (AList.update k title d))"
    using Cons.prems(2) by (simp add: distinct_update)
  ultimately show ?case by (rule Cons.IH)
qed

lemma title_loop_keeps:
  "title_loop fs d = Inr d' \<Longrightarrow> map_of d k \<noteq> None \<Longrightarrow> map_of d' k \<noteq> None"
proof (induction fs arbitrary: d)
  case Nil
  then show ?case by simp
next
  case (Cons f fs)
  from Cons.prems(1) obtain title k' where
    step: "title_loop fs (AList.update k' title d) = Inr d'"
    by (auto simp: bind_err_def split: sum.splits)
  have "map_of (AList.update k' title d) k \<noteq> None"
    using Cons.prems(2) by (simp add: update_conv')
  with step show ?case by (rule Cons.IH)
qed

lemma title_loop_defines:
  "title_loop fs d = Inr d' \<Longrightarrow> f \<in> set fs \<Longrightarrow>
     \<exists>q k. subscript f (u ''id'') = Inr q \<and> dict_key q = Inr k \<and> map_of d' k \<noteq> None"
proof (induction fs arbitrary: d)
  case Nil
  then show ?case by simp
next
  case (Cons g fs)
  from Cons.prems(1) obtain title q k where
    g: "subscript g (u ''id'') = Inr q" "dict_key q = Inr k"
    and step: "title_loop fs (AList.update k title d) = Inr d'"
    by (auto simp: bind_err_def split: sum.splits)
  show ?case
  proof (cases "f = g")
    case True
    have "map_of (AList.update k title d) k \<noteq> None" by (simp add: update_conv')
    with step have "map_of d' k \<noteq> None" by (rule title_loop_keeps)
    with g True show ?thesis by blast
  next
    case False
    with Cons.prems(2) have "f \<in> set fs" by simp
    with step show ?thesis by (rule Cons.IH)
  qed
qed

lemma merge_loop_lookup:
  "distinct (map fst items) \<Longrightarrow>
   map_of (merge_loop items by_id pairs) k =
     (case map_of items k of
        None \<Rightarrow> map_of pairs k
      | Some title \<Rightarrow> Some (pair_of title by_id k))"
proof (induction items arbitrary: pairs)
  case Nil
  show ?case by simp
next
  case (Cons item items)
  obtain k' v where item: "item = (k', v)" by (cases item)
  from Cons.prems item have d: "distinct (map fst items)" and fresh: "map_of items k' = None"
    by (auto simp: map_of_eq_None_iff)
  show ?case
    using Cons.IH[OF d] fresh
    by (auto simp: item update_conv' pair_of_def split: option.splits)
qed

lemma get_question_id_to_title_Inr:
  "get_question_id_to_title env data = (t, Inr titles) \<longleftrightarrow>
     t = [] \<and> (\<exists>fs fl. subscript data (u ''fields'') = Inr fs \<and> py_iter fs = Inr fl \<and>
                 title_loop fl [] = Inr titles)"
  by (auto simp: get_question_id_to_title_def try_except_def lift_io_def bind_err_def
        bind_io_def raise_io_def split: sum.splits)

lemma titles_distinct:
  "get_question_id_to_title env data = (t, Inr titles) \<Longrightarrow> distinct (map fst titles)"
  by (auto simp: get_question_id_to_title_Inr dest: title_loop_distinct)

lemma merge_pairs_lookup:
  "get_question_id_to_title env data = (t, Inr titles) \<Longrightarrow>
   map_of (merge_pairs titles by_id) k =
     (case map_of titles k of None \<Rightarrow> None | Some title \<Rightarrow> Some (pair_of title by_id k))"
  by (simp add: merge_pairs_def merge_loop_lookup titles_distinct split: option.splits)

lemma safe_get_answer_absent:
  "map_of pairs (JStr field_id) = None \<Longrightarrow>
   safe_get_answer env pairs field_id = ([], Inr (JStr (u ''Not provided'')))"
  by (simp add: safe_get_answer_def try_except_def lift_io_def dict_get_def)

lemma safe_get_answer_present:
  "map_of pairs (JStr field_id) = Some (JObj kvs) \<Longrightarrow> map_of kvs (u ''answer'') = Some a \<Longrightarrow>
   safe_get_answer env pairs field_id = ([], Inr a)"
  by (simp add: safe_get_answer_def try_except_def lift_io_def dict_get_def)

lemma safe_get_answer_merged:
  assumes "get_question_id_to_title env data = (t, Inr titles)"
  shows "safe_get_answer env (merge_pairs titles by_id) field_id =
           ([], Inr (case map_of titles (JStr field_id) of
                       None \<Rightarrow> JStr (u ''Not provided'')
                     | Some title \<Rightarrow>
                         (case map_of by_id (JStr field_id) of None \<Rightarrow> JStr [] | Some a \<Rightarrow> a)))"
proof (cases "map_of titles (JStr field_id)")
  case None
  then have "map_of (merge_pairs titles by_id) (JStr field_id) = None"
    by (simp add: merge_pairs_lookup[OF assms])
  then show ?thesis using None by (simp add: safe_get_answer_absent)
next
  case (Some title)
  then have "map_of (merge_pairs titles by_id) (JStr field_id) = Some (pair_of title by_id (JStr field_id))"
    by (simp add: merge_pairs_lookup[OF assms])
  then show ?thesis using Some
    by (simp add: safe_get_answer_present[where a="case map_of by_id (JStr field_id) of None \<Rightarrow> JStr [] | Some a \<Rightarrow> a"] pair_of_def)
qed

lemma no_answer_no_entry:
  "map_question_id_to_answer env (JArr answers) = (t, Inr by_id) \<Longrightarrow>
   \<forall>a\<in>set answers. answer_key a \<noteq> Inr k \<Longrightarrow> map_of by_id k = None"
  using answer_loop_untouched[of env answers "[]" by_id k]
  by (simp add: map_question_id_to_answer_Inr)

text \<open>
  C5: a lookup of a field id that is not in the pair map gives \<open>Not provided\<close>; a lookup
  of a field id that is there gives the stored answer; and a field that the form defines
  and that no submitted answer refers to is stored with the empty string, which is what
  the lookup then gives.
\<close>

theorem resolve_sentinel_and_empty:
  "(map_of pairs (JStr field_id) = None \<longrightarrow>
      safe_get_answer env pairs field_id = ([], Inr (JStr (u ''Not provided'')))) \<and>
   (map_of pairs (JStr field_id) = Some (JObj [(u ''title'', title), (u ''answer'', a)]) \<longrightarrow>
      safe_get_answer env pairs field_id = ([], Inr a)) \<and>
   (get_question_id_to_title env form_definition = (t1, Inr titles) \<and>
    map_question_id_to_answer env (JArr answers) = (t2, Inr by_id) \<and>
    map_of titles (JStr field_id) \<noteq> None \<and>
    (\<forall>a\<in>set answers. answer_key a \<noteq> Inr (JStr field_id)) \<longrightarrow>
      safe_get_answer env (merge_pairs titles by_id) field_id = ([], Inr (JStr [])))"
proof (intro conjI impI)
  assume "map_of pairs (JStr field_id) = None"
  then show "safe_get_answer env pairs field_id = ([], Inr (JStr (u ''Not provided'')))"
    by (rule safe_get_answer_absent)
next
  assume "map_of pairs (JStr field_id) = Some (JObj [(u ''title'', title), (u ''answer'', a)])"
  then show "safe_get_answer env pairs field_id = ([], Inr a)"
    by (rule safe_get_answer_present) simp
next
  assume h: "get_question_id_to_title env form_definition = (t1, Inr titles) \<and>
    map_question_id_to_answer env (JArr answers) = (t2, Inr by_id) \<and>
    map_of titles (JStr field_id) \<noteq> None \<and>
    (\<forall>a\<in>set answers. answer_key a \<noteq> Inr (JStr field_id))"
  then have "map_of by_id (JStr field_id) = None"
    using no_answer_no_entry by blast
  with h show "safe_get_answer env (merge_pairs titles by_id) field_id = ([], Inr (JStr []))"
    by (auto simp: safe_get_answer_merged)
qed

lemma sample_titles_run:
  "get_question_id_to_title sample_env sample_definition = ([], Inr sample_titles)"
  by (simp add: get_question_id_to_title_def try_except_def lift_io_def bind_err_def
        sample_definition_def sample_titles_def)

lemma sample_answers_run:
  "map_question_id_to_answer sample_env (JArr [text_answer]) =
     ([], Inr [(JStr (u ''q1''), JStr (u ''hello''))])"
  by (simp add: map_question_id_to_answer_def try_except_def lift_io_def bind_err_def
        process_answer_def answer_value_def text_answer_def)

lemma sample_pairs_run:
  "merge_pairs sample_titles [(JStr (u ''q1''), JStr (u ''hello''))] =
     [(JStr (u ''q1''), JObj [(u ''title'', JStr (u ''Your name'')), (u ''answer'', JStr (u ''hello''))]),
      (JStr (u ''hyZIUMruIaXZ''), JObj [(u ''title'', JStr (u ''Welcome'')), (u ''answer'', JStr [])])]"
  by (simp add: merge_pairs_def sample_titles_def)

theorem resolve_sentinel_and_empty_witness:
  "safe_get_answer sample_env
     (merge_pairs sample_titles [(JStr (u ''q1''), JStr (u ''hello''))]) (u ''unknownId'') =
       ([], Inr (JStr (u ''Not provided''))) \<and>
   safe_get_answer sample_env
     (merge_pairs sample_titles [(JStr (u ''q1''), JStr (u ''hello''))]) (u ''q1'') =
       ([], Inr (JStr (u ''hello''))) \<and>
   safe_get_answer sample_env
     (merge_pairs sample_titles [(JStr (u ''q1''), JStr (u ''hello''))]) (u ''hyZIUMruIaXZ'') =
       ([], Inr (JStr []))"
  using resolve_sentinel_and_empty [where
          pairs = "merge_pairs sample_titles [(JStr (u ''q1''), JStr (u ''hello''))]"
          and field_id = "u ''unknownId''" and env = sample_env]
        resolve_sentinel_and_empty [where
          pairs = "merge_pairs sample_titles [(JStr (u ''q1''), JStr (u ''hello''))]"
          and field_id = "u ''q1''" and title = "JStr (u ''Your name'')"
          and a = "JStr (u ''hello'')" and env = sample_env]
        resolve_sentinel_and_empty [where
          field_id = "u ''hyZIUMruIaXZ''" and env = sample_env
          and form_definition = sample_definition and ?t1.0 = "[]" and titles = sample_titles
          and answers = "[text_answer]" and ?t2.0 = "[]"
          and by_id = "[(JStr (u ''q1''), JStr (u ''hello''))]"]
  by (simp add: sample_titles_run sample_answers_run sample_pairs_run text_answer_key)


lemma env_fields_ignore [ignore_free]:
  "alert_post (env\<lparr>ignore_field_ids := ids\<rparr>) = alert_post env"
  "ssm_get_parameter (env\<lparr>ignore_field_ids := ids\<rparr>) = ssm_get_parameter env"
  "hmac_sha256_base64 (env\<lparr>ignore_field_ids := ids\<rparr>) = hmac_sha256_base64 env"
  "json_loads (env\<lparr>ignore_field_ids := ids\<rparr>) = json_loads env"
  "admin_get_user (env\<lparr>ignore_field_ids := ids\<rparr>) = admin_get_user env"
  "admin_update_user_attributes (env\<lparr>ignore_field_ids := ids\<rparr>) =
     admin_update_user_attributes env"
  "slack_post (env\<lparr>ignore_field_ids := ids\<rparr>) = slack_post env"
  "dynamodb_query (env\<lparr>ignore_field_ids := ids\<rparr>) = dynamodb_query env"
  "dynamodb_put_item (env\<lparr>ignore_field_ids := ids\<rparr>) = dynamodb_put_item env"
  "sqs_send_message (env\<lparr>ignore_field_ids := ids\<rparr>) = sqs_send_message env"
  "now (env\<lparr>ignore_field_ids := ids\<rparr>) = now env"
  "py_repr (env\<lparr>ignore_field_ids := ids\<rparr>) = py_repr env"
  "unicode_digit (env\<lparr>ignore_field_ids := ids\<rparr>) = unicode_digit env"
  by simp_all

lemma send_error_to_slack_ignore [ignore_free]:
  "send_error_to_slack (env\<lparr>ignore_field_ids := ids\<rparr>) = send_error_to_slack env"
  unfolding send_error_to_slack_def ignore_free by (rule refl)

lemma log_and_alert_ignore [ignore_free]:
  "log_and_alert (env\<lparr>ignore_field_ids := ids\<rparr>) = log_and_alert env"
  unfolding log_and_alert_def ignore_free by (rule refl)

lemma get_question_id_to_title_ignore [ignore_free]:
  "get_question_id_to_title (env\<lparr>ignore_field_ids := ids\<rparr>) = get_question_id_to_title env"
  unfolding get_question_id_to_title_def ignore_free by (rule refl)

lemma answer_value_ignore [ignore_free]:
  "answer_value (env\<lparr>ignore_field_ids := ids\<rparr>) = answer_value env"
  unfolding answer_value_def ignore_free by (rule refl)

lemma process_answer_ignore [ignore_free]:
  "process_answer (env\<lparr>ignore_field_ids := ids\<rparr>) = process_answer env"
  unfolding process_answer_def ignore_free by (rule refl)

lemma answer_loop_ignore [ignore_free]:
  "answer_loop (env\<lparr>ignore_field_ids := ids\<rparr>) = answer_loop env"
proof (intro ext)
  fix as d
  show "answer_loop (env\<lparr>ignore_field_ids := ids\<rparr>) as d = answer_loop env as d"
    by (induction as arbitrary: d) (simp_all add: process_answer_ignore bind_err_def split: sum.splits)
qed

lemma map_question_id_to_answer_ignore [ignore_free]:
  "map_question_id_to_answer (env\<lparr>ignore_field_ids := ids\<rparr>) = map_question_id_to_answer env"
  unfolding map_question_id_to_answer_def ignore_free by (rule refl)

lemma safe_get_answer_ignore [ignore_free]:
  "safe_get_answer (env\<lparr>ignore_field_ids := ids\<rparr>) = safe_get_answer env"
  unfolding safe_get_answer_def ignore_free by (rule refl)

lemma strptime_ymd_ignore [ignore_free]:
  "strptime_ymd (env\<lparr>ignore_field_ids := ids\<rparr>) = strptime_ymd env"
  unfolding strptime_ymd_def ignore_free by (rule refl)

lemma calculate_age_ignore [ignore_free]:
  "calculate_age (env\<lparr>ignore_field_ids := ids\<rparr>) = calculate_age env"
  unfolding calculate_age_def ignore_free by (rule refl)

lemma fmt_ignore [ignore_free]:
  "fmt (env\<lparr>ignore_field_ids := ids\<rparr>) = fmt env"
  unfolding fmt_def ignore_free by (rule refl)

lemma generate_prompt_ignore [ignore_free]:
  "generate_prompt (env\<lparr>ignore_field_ids := ids\<rparr>) = generate_prompt env"
  unfolding generate_prompt_def format_cardio_detail_def format_environment_detail_def
    format_injury_detail_def weightlifting_sentence_def ignore_free
  by (rule refl)

lemma get_parameter_ignore [ignore_free]:
  "get_parameter (env\<lparr>ignore_field_ids := ids\<rparr>) = get_parameter env"
  unfolding get_parameter_def ignore_free by (rule refl)

lemma verify_signature_ignore [ignore_free]:
  "verify_signature (env\<lparr>ignore_field_ids := ids\<rparr>) = verify_signature env"
  unfolding verify_signature_def ignore_free by (rule refl)

lemma compose_prompt_ignore [ignore_free]:
  "compose_prompt (env\<lparr>ignore_field_ids := ids\<rparr>) = compose_prompt env"
  unfolding compose_prompt_def ignore_free by (rule refl)

lemma deliver_ignore [ignore_free]:
  "deliver (env\<lparr>ignore_field_ids := ids\<rparr>) = deliver env"
  unfolding deliver_def send_to_slack_def save_to_db_def ignore_free by (rule refl)

lemma resolve_identity_ignore [ignore_free]:
  "resolve_identity (env\<lparr>ignore_field_ids := ids\<rparr>) = resolve_identity env"
  unfolding resolve_identity_def get_cognito_user_def update_user_def ignore_free by (rule refl)

lemma process_verified_ignore [ignore_free]:
  "process_verified (env\<lparr>ignore_field_ids := ids\<rparr>) = process_verified env"
  unfolding process_verified_def ignore_free by (rule refl)

lemma lambda_handler_ignore:
  "lambda_handler (env\<lparr>ignore_field_ids := ids\<rparr>) = lambda_handler env"
  unfolding lambda_handler_def ignore_free by (rule refl)

text \<open>
  C9: every field of the form definition has an entry in the pair map, with its answer or
  the empty string; this holds for the ids of the module's \<open>ignore_field_ids\<close> as for any
  other, and they resolve like any other. What the handler returns and does is the same
  whatever the value of that list.
\<close>

theorem ignore_field_ids_never_consulted:
  "(get_question_id_to_title env form_definition = (t, Inr titles) \<and>
    subscript form_definition (u ''fields'') = Inr fs \<and> py_iter fs = Inr field_list \<and>
    f \<in> set field_list \<longrightarrow>
      (\<exists>q k title. subscript f (u ''id'') = Inr q \<and> dict_key q = Inr k \<and>
         map_of (merge_pairs titles by_id) k =
           Some (JObj [(u ''title'', title),
                       (u ''answer'', case map_of by_id k of None \<Rightarrow> JStr [] | Some a \<Rightarrow> a)]))) \<and>
   (get_question_id_to_title env form_definition = (t, Inr titles) \<longrightarrow>
      (\<forall>i\<in>set ignore_field_ids_literal. map_of titles (JStr i) \<noteq> None \<longrightarrow>
         map_of (merge_pairs titles by_id) (JStr i) \<noteq> None \<and>
         safe_get_answer env (merge_pairs titles by_id) i =
           ([], Inr (case map_of by_id (JStr i) of None \<Rightarrow> JStr [] | Some a \<Rightarrow> a)))) \<and>
   lambda_handler (env\<lparr>ignore_field_ids := ids\<rparr>) ev = lambda_handler env ev"
proof (intro conjI impI ballI)
  assume h: "get_question_id_to_title env form_definition = (t, Inr titles) \<and>
    subscript form_definition (u ''fields'') = Inr fs \<and> py_iter fs = Inr field_list \<and>
    f \<in> set field_list"
  then have "title_loop field_list [] = Inr titles"
    by (auto simp: get_question_id_to_title_Inr)
  from title_loop_defines[OF this, of f] h
  obtain q k where qk: "subscript f (u ''id'') = Inr q" "dict_key q = Inr k" "map_of titles k \<noteq> None"
    by blast
  then obtain title where "map_of titles k = Some title" by blast
  with h have "map_of (merge_pairs titles by_id) k = Some (pair_of title by_id k)"
    by (simp add: merge_pairs_lookup[where env=env and data=form_definition and t=t])
  with qk show "\<exists>q k title. subscript f (u ''id'') = Inr q \<and> dict_key q = Inr k \<and>
         map_of (merge_pairs titles by_id) k =
           Some (JObj [(u ''title'', title),
                       (u ''answer'', case map_of by_id k of None \<Rightarrow> JStr [] | Some a \<Rightarrow> a)])"
    unfolding pair_of_def by blast
next
  fix i
  assume h: "get_question_id_to_title env form_definition = (t, Inr titles)"
    and d: "map_of titles (JStr i) \<noteq> None"
  then show "map_of (merge_pairs titles by_id) (JStr i) \<noteq> None"
    by (auto simp: merge_pairs_lookup[OF h])
  from d show "safe_get_answer env (merge_pairs titles by_id) i =
           ([], Inr (case map_of by_id (JStr i) of None \<Rightarrow> JStr [] | Some a \<Rightarrow> a))"
    by (auto simp: safe_get_answer_merged[OF h])
next
  show "lambda_handler (env\<lparr>ignore_field_ids := ids\<rparr>) ev = lambda_handler env ev"
    by (simp add: lambda_handler_ignore)
qed

lemma ignored_id_listed: "u ''hyZIUMruIaXZ'' \<in> set ignore_field_ids_literal"
  by (simp add: ignore_field_ids_literal_def)

lemma sample_definition_fields:
  "subscript sample_definition (u ''fields'') =
     Inr (JArr [JObj [(u ''id'', JStr (u ''q1'')), (u ''title'', JStr (u ''Your name''))],
                JObj [(u ''id'', JStr (u ''hyZIUMruIaXZ'')), (u ''title'', JStr (u ''Welcome''))]])"
  by (simp add: sample_definition_def)

theorem ignore_field_ids_never_consulted_witness:
  "map_of (merge_pairs sample_titles [(JStr (u ''q1''), JStr (u ''hello''))])
      (JStr (u ''hyZIUMruIaXZ'')) =
     Some (JObj [(u ''title'', JStr (u ''Welcome'')), (u ''answer'', JStr [])]) \<and>
   safe_get_answer sample_env (merge_pairs sample_titles [(JStr (u ''q1''), JStr (u ''hello''))])
      (u ''hyZIUMruIaXZ'') = ([], Inr (JStr [])) \<and>
   lambda_handler (sample_env\<lparr>ignore_field_ids := []\<rparr>) unsigned_event =
     lambda_handler sample_env unsigned_event"
proof -
  let ?listed_field = "JObj [(u ''id'', JStr (u ''hyZIUMruIaXZ'')), (u ''title'', JStr (u ''Welcome''))]"
  let ?name_field = "JObj [(u ''id'', JStr (u ''q1'')), (u ''title'', JStr (u ''Your name''))]"
  note w = ignore_field_ids_never_consulted [where env = sample_env
          and form_definition = sample_definition and t = "[]" and titles = sample_titles
          and fs = "JArr [?name_field, ?listed_field]" and field_list = "[?name_field, ?listed_field]"
          and f = ?listed_field and by_id = "[(JStr (u ''q1''), JStr (u ''hello''))]"
          and ids = "[]" and ev = unsigned_event]
  have listed: "map_of sample_titles (JStr (u ''hyZIUMruIaXZ'')) \<noteq> None"
    by (simp add: sample_titles_def)
  from w have entry: "map_of (merge_pairs sample_titles [(JStr (u ''q1''), JStr (u ''hello''))])
      (JStr (u ''hyZIUMruIaXZ'')) =
     Some (JObj [(u ''title'', JStr (u ''Welcome'')), (u ''answer'', JStr [])])"
    by (simp add: sample_titles_run sample_definition_fields sample_pairs_run)
  from w have "\<forall>i\<in>set ignore_field_ids_literal. map_of sample_titles (JStr i) \<noteq> None \<longrightarrow>
         safe_get_answer sample_env (merge_pairs sample_titles [(JStr (u ''q1''), JStr (u ''hello''))]) i =
           ([], Inr (case map_of [(JStr (u ''q1''), JStr (u ''hello''))] (JStr i) of
                       None \<Rightarrow> JStr [] | Some a \<Rightarrow> a))"
    by (simp add: sample_titles_run)
  from bspec[OF this ignored_id_listed] listed
  have resolved: "safe_get_answer sample_env
      (merge_pairs sample_titles [(JStr (u ''q1''), JStr (u ''hello''))]) (u ''hyZIUMruIaXZ'') =
        ([], Inr (JStr []))"
    by simp
  from w have "lambda_handler (sample_env\<lparr>ignore_field_ids := []\<rparr>) unsigned_event =
     lambda_handler sample_env unsigned_event"
    by blast
  with entry resolved show ?thesis by blast
qed

section \<open>Properties of the emoji removal\<close>

lemma filter_dropWhile_same: "filter (\<lambda>c. \<not> P c) (dropWhile P xs) = filter (\<lambda>c. \<not> P c) xs"
  by (induction xs) simp_all

lemma remove_emojis_filter: "remove_emojis prompt = filter (\<lambda>c. \<not> emoji_pattern c) prompt"
proof (induction prompt rule: remove_emojis.induct)
  case 1
  show ?case by simp
next
  case (2 c cs)
  show ?case
  proof (cases "emoji_pattern c")
    case True
    with 2 show ?thesis by (simp add: filter_dropWhile_same)
  next
    case False
    with 2 show ?thesis by simp
  qed
qed

lemma below_zwj_not_emoji: "c < 0x200D \<Longrightarrow> \<not> emoji_pattern c"
  by (simp add: emoji_pattern_def)

lemma emoji_pattern_span:
  "emoji_pattern c \<longleftrightarrow>
      c = 0x200D \<or> c = 0x231A \<or> c = 0x23CF \<or> c = 0x23E9 \<or> (0x24C2 \<le> c \<and> c \<le> 0x10FFFF)"
proof
  assume "emoji_pattern c"
  then show "c = 0x200D \<or> c = 0x231A \<or> c = 0x23CF \<or> c = 0x23E9 \<or> (0x24C2 \<le> c \<and> c \<le> 0x10FFFF)"
    unfolding emoji_pattern_def by (elim disjE) simp_all
next
  assume r: "c = 0x200D \<or> c = 0x231A \<or> c = 0x23CF \<or> c = 0x23E9 \<or> (0x24C2 \<le> c \<and> c \<le> 0x10FFFF)"
  have wide: "emoji_pattern c" if "0x24C2 \<le> c" "c \<le> 0x10FFFF"
  proof (cases "c \<le> 0x1F251")
    case True
    with that show ?thesis by (simp add: emoji_pattern_def)
  next
    case False
    then have "0x10000 \<le> c" by simp
    with that show ?thesis by (simp add: emoji_pattern_def)
  qed
  from r show "emoji_pattern c"
  proof (elim disjE)
    assume "0x24C2 \<le> c \<and> c \<le> 0x10FFFF"
    then show ?thesis using wide by blast
  qed (simp_all add: emoji_pattern_def)
qed

text \<open>
  The removal deletes exactly the characters of the class and keeps every other character,
  in order: a string is returned as it is exactly when it has no character of the class.
  Every code point below U+200D (ASCII, the accented Latin letters) is outside the class.
\<close>

lemma remove_emojis_unchanged_iff:
  "remove_emojis prompt = prompt \<longleftrightarrow> (\<forall>c\<in>set prompt. \<not> emoji_pattern c)"
  by (simp add: remove_emojis_filter filter_id_conv)

lemma remove_emojis_below_zwj:
  "\<forall>c\<in>set prompt. c < 0x200D \<Longrightarrow> remove_emojis prompt = prompt"
  by (simp add: remove_emojis_filter filter_id_conv below_zwj_not_emoji)

lemma remove_emojis_accented_sample:
  "remove_emojis (u ''Caf'' @ [0xE9, 0x20, 0x1F389, 0x1F525]) = u ''Caf'' @ [0xE9, 0x20] \<and>
   remove_emojis (u ''Zo'' @ [0xEB, 0x20, 0x141] @ u ''ukasz'') =
     u ''Zo'' @ [0xEB, 0x20, 0x141] @ u ''ukasz'' \<and>
   remove_emojis (u ''ok '' @ [0x2705, 0xFE0F] @ u '' done'') = u ''ok  done''"
  by (simp add: remove_emojis_filter u_def emoji_pattern_def)

text \<open>
  C3: the claim fails of \<open>remove_emojis\<close>. The twelfth entry of the class is not a
  range of pictographs: it runs from U+24C2 to U+1F251 and, with the entry from U+10000 to
  U+10FFFF, the class holds every code point from U+24C2 up (lemma
  \<open>emoji_pattern_span\<close>). So the removal erases letters that are neither emoji nor
  variation selectors: the CJK name U+674E U+660E is removed whole, from a string of its
  own and from the first sentence of a prompt; the Hangul syllables U+D55C U+AE00 and the
  kana U+3042 are removed; the Latin Extended-D letter U+A78C is removed from inside a
  word. Other non-ASCII text is not preserved untouched.
\<close>

theorem remove_emojis_erases_letters:
  "remove_emojis [0x674E, 0x660E] = [] \<and>
   remove_emojis (u ''Create a workout for '' @ [0x674E, 0x660E] @ u '' Li, 33 years old'') =
     u ''Create a workout for  Li, 33 years old'' \<and>
   remove_emojis [0xD55C, 0xAE00] = [] \<and>
   remove_emojis (u ''Aiko '' @ [0x3042]) = u ''Aiko '' \<and>
   remove_emojis (u ''Tla'' @ [0xA78C] @ u ''ktli'') = u ''Tlaktli''"
  by (simp add: remove_emojis_filter u_def emoji_pattern_def)

section \<open>Properties of the age\<close>

lemma tuple_less_lex:
  "tuple_less (a, b) (c, d) \<longleftrightarrow> a < c \<or> (a = c \<and> b < d)"
  by (auto simp: tuple_less_def)

lemma calculate_age_parsed:
  "strptime_ymd env v = Inr birthdate \<Longrightarrow>
   calculate_age env v =
     ([], Inr (year (now env) - year birthdate -
               (if month (now env) < month birthdate \<or>
                   (month (now env) = month birthdate \<and> day (now env) < day birthdate)
                then 1 else 0)))"
  by (simp add: calculate_age_def try_except_def lift_io_def bind_err_def Let_def tuple_less_lex)

lemma regex_matches_sample:
  assumes "\<forall>c. 48 \<le> c \<and> c \<le> 57 \<longrightarrow> dv c = Some (c - 48)"
  shows "regex_matches dv (u ''1990-06-15'') = [((1990, 6, 15), []), ((1990, 6, 1), [53])]"
proof -
  have d: "dv 48 = Some 0" "dv 49 = Some 1" "dv 57 = Some 9" "dv 53 = Some 5"
    using assms by simp_all
  show ?thesis
    by (simp add: regex_matches_def year_group_def hyphen_def u_def d ascii_digit_between_def)
qed

lemma strptime_sample:
  assumes "\<forall>c. 48 \<le> c \<and> c \<le> 57 \<longrightarrow> unicode_digit env c = Some (c - 48)"
  shows "strptime_ymd env (JStr (u ''1990-06-15'')) = Inr \<lparr>year = 1990, month = 6, day = 15\<rparr>"
  by (simp add: strptime_ymd_def regex_matches_sample[OF assms] days_in_month_def)

text \<open>
  C4: for a birth date that \<open>strptime\<close> accepts, the age is the year of the reference
  date minus the year of birth, minus one exactly when the month and day of the reference
  date come before the month and day of birth in the lexicographic order. The string
  1990-06-15 is accepted as 15 June 1990 (given the ASCII digits as digits). Against
  2024-06-14 the age is 33; it is 34 exactly from 2024-06-15 to the day before the next
  birthday, 2025-06-14.
\<close>

theorem age_by_birthday:
  "(strptime_ymd env (JStr s) = Inr birthdate \<longrightarrow>
      calculate_age env (JStr s) =
        ([], Inr (year (now env) - year birthdate -
                  (if month (now env) < month birthdate \<or>
                      (month (now env) = month birthdate \<and> day (now env) < day birthdate)
                   then 1 else 0)))) \<and>
   ((\<forall>c. 48 \<le> c \<and> c \<le> 57 \<longrightarrow> unicode_digit env c = Some (c - 48)) \<longrightarrow>
      strptime_ymd env (JStr (u ''1990-06-15'')) = Inr \<lparr>year = 1990, month = 6, day = 15\<rparr> \<and>
      (now env = \<lparr>year = 2024, month = 6, day = 14\<rparr> \<longrightarrow>
         calculate_age env (JStr (u ''1990-06-15'')) = ([], Inr 33)) \<and>
      (calculate_age env (JStr (u ''1990-06-15'')) = ([], Inr 34) \<longleftrightarrow>
         (year (now env) = 2024 \<and>
            (6 < month (now env) \<or> (month (now env) = 6 \<and> 15 \<le> day (now env)))) \<or>
         (year (now env) = 2025 \<and>
            (month (now env) < 6 \<or> (month (now env) = 6 \<and> day (now env) < 15)))))"
proof (intro conjI impI)
  assume "strptime_ymd env (JStr s) = Inr birthdate"
  then show "calculate_age env (JStr s) =
        ([], Inr (year (now env) - year birthdate -
                  (if month (now env) < month birthdate \<or>
                      (month (now env) = month birthdate \<and> day (now env) < day birthdate)
                   then 1 else 0)))"
    by (rule calculate_age_parsed)
next
  assume a: "\<forall>c. 48 \<le> c \<and> c \<le> 57 \<longrightarrow> unicode_digit env c = Some (c - 48)"
  show p: "strptime_ymd env (JStr (u ''1990-06-15'')) = Inr \<lparr>year = 1990, month = 6, day = 15\<rparr>"
    by (rule strptime_sample[OF a])
  note age = calculate_age_parsed[OF p]
  show "calculate_age env (JStr (u ''1990-06-15'')) = ([], Inr 33)"
    if "now env = \<lparr>year = 2024, month = 6, day = 14\<rparr>"
    using that by (simp add: age)
  show "calculate_age env (JStr (u ''1990-06-15'')) = ([], Inr 34) \<longleftrightarrow>
         (year (now env) = 2024 \<and>
            (6 < month (now env) \<or> (month (now env) = 6 \<and> 15 \<le> day (now env)))) \<or>
         (year (now env) = 2025 \<and>
            (month (now env) < 6 \<or> (month (now env) = 6 \<and> day (now env) < 15)))"
    unfolding age by (simp split: if_splits) arith
qed

theorem age_by_birthday_witness:
  "calculate_age sample_env (JStr (u ''1990-06-15'')) = ([], Inr 33) \<and>
   calculate_age (sample_env\<lparr>now := \<lparr>year = 2024, month = 6, day = 15\<rparr>\<rparr>)
     (JStr (u ''1990-06-15'')) = ([], Inr 34) \<and>
   calculate_age (sample_env\<lparr>now := \<lparr>year = 2024, month = 12, day = 1\<rparr>\<rparr>)
     (JStr (u ''1990-06-15'')) = ([], Inr 34)"
  using age_by_birthday [of sample_env "u ''1990-06-15''" "\<lparr>year = 1990, month = 6, day = 15\<rparr>"]
        age_by_birthday [of "sample_env\<lparr>now := \<lparr>year = 2024, month = 6, day = 15\<rparr>\<rparr>"
           "u ''1990-06-15''" "\<lparr>year = 1990, month = 6, day = 15\<rparr>"]
        age_by_birthday [of "sample_env\<lparr>now := \<lparr>year = 2024, month = 12, day = 1\<rparr>\<rparr>"
           "u ''1990-06-15''" "\<lparr>year = 1990, month = 6, day = 15\<rparr>"]
  by (simp add: sample_env_def ascii_digit_def)

section \<open>Properties of the prompt\<close>

lemma sublist_append_split:
  assumes "sublist s (xs @ ys)" "\<not> sublist s xs" "\<not> sublist s ys"
  shows "\<exists>a b. s = a @ b \<and> a \<noteq> [] \<and> b \<noteq> [] \<and> suffix a xs \<and> prefix b ys"
proof -
  from assms obtain a b where ab: "s = a @ b" "suffix a xs" "prefix b ys"
    by (auto simp: sublist_append)
  have "a \<noteq> []"
  proof
    assume "a = []"
    with ab have "prefix s ys" by simp
    with assms(3) show False by (simp add: prefix_imp_sublist)
  qed
  moreover have "b \<noteq> []"
  proof
    assume "b = []"
    with ab have "suffix s xs" by simp
    with assms(2) show False by (simp add: suffix_imp_sublist)
  qed
  ultimately show ?thesis using ab by blast
qed

lemma sentinel_head: "sentinel = 73 # tl sentinel"
  by (simp add: sentinel_def u_def)

lemma sentinel_skips_plain:
  assumes "sublist sentinel (xs @ ys)" "73 \<notin> set xs"
  shows "sublist sentinel ys"
proof (rule ccontr)
  assume n: "\<not> sublist sentinel ys"
  have nx: "\<not> sublist sentinel xs"
  proof
    assume "sublist sentinel xs"
    then have "set sentinel \<subseteq> set xs" by (rule set_mono_sublist)
    moreover have "73 \<in> set sentinel" by (subst sentinel_head) simp
    ultimately show False using assms(2) by blast
  qed
  from sublist_append_split[OF assms(1) nx n]
  obtain a b where ab: "sentinel = a @ b" "a \<noteq> []" "suffix a xs" by blast
  from ab(1,2) have "hd a = 73" by (subst (asm) sentinel_head) (cases a, simp_all)
  with ab(2) have "73 \<in> set a" by (cases a) auto
  moreover from ab(3) have "set a \<subseteq> set xs" by (rule set_mono_suffix)
  ultimately show False using assms(2) by blast
qed

lemma sentinel_suffixes:
  "suffix b sentinel \<longleftrightarrow> b \<in> set (suffixes sentinel)"
  by (simp add: in_set_suffixes)

lemma no_tail_starts_of_weightlifting:
  "suffix b sentinel \<Longrightarrow> b \<noteq> [] \<Longrightarrow> \<not> prefix b (u '' of weightlifting with '' @ zs)"
  unfolding sentinel_suffixes by (auto simp: sentinel_def u_def)

lemma no_tail_starts_performed:
  "suffix b sentinel \<Longrightarrow> b \<noteq> [] \<Longrightarrow> \<not> prefix b (u '' performed in Pyramid sets. '')"
  unfolding sentinel_suffixes by (auto simp: sentinel_def u_def)


lemma plain_parts:
  "73 \<notin> set (u ''Each session includes '')"
  "73 \<notin> set (u '' of weightlifting with '')"
  "73 \<notin> set (u '' performed in Pyramid sets. '')"
  by (simp_all add: u_def)

lemma sentinel_needs_capital: "sublist sentinel xs \<Longrightarrow> 73 \<in> set xs"
proof -
  assume "sublist sentinel xs"
  then have "set sentinel \<subseteq> set xs" by (rule set_mono_sublist)
  moreover have "73 \<in> set sentinel" by (subst sentinel_head) simp
  ultimately show ?thesis by blast
qed

lemma sentinel_not_across:
  assumes x: "\<not> sublist sentinel x" and y: "\<not> sublist sentinel y"
  shows "\<not> sublist sentinel
           (u ''Each session includes '' @ x @ u '' of weightlifting with '' @ y @
            u '' performed in Pyramid sets. '')"
proof
  assume "sublist sentinel
           (u ''Each session includes '' @ x @ u '' of weightlifting with '' @ y @
            u '' performed in Pyramid sets. '')"
  then have 1: "sublist sentinel (x @ u '' of weightlifting with '' @ y @
            u '' performed in Pyramid sets. '')"
    by (rule sentinel_skips_plain) (rule plain_parts(1))
  have 2: "sublist sentinel (u '' of weightlifting with '' @ y @ u '' performed in Pyramid sets. '')"
  proof (rule ccontr)
    assume n: "\<not> sublist sentinel
      (u '' of weightlifting with '' @ y @ u '' performed in Pyramid sets. '')"
    from sublist_append_split[OF 1 x n]
    obtain a b where "sentinel = a @ b" "b \<noteq> []"
      "prefix b (u '' of weightlifting with '' @ y @ u '' performed in Pyramid sets. '')"
      by blast
    moreover from this(1) have "suffix b sentinel" by (rule suffixI)
    ultimately show False using no_tail_starts_of_weightlifting by blast
  qed
  from 2 have 3: "sublist sentinel (y @ u '' performed in Pyramid sets. '')"
    by (rule sentinel_skips_plain) (rule plain_parts(2))
  have "\<not> sublist sentinel (u '' performed in Pyramid sets. '')"
    using sentinel_needs_capital plain_parts(3) by blast
  from sublist_append_split[OF 3 y this]
  obtain a b where "sentinel = a @ b" "b \<noteq> []" "prefix b (u '' performed in Pyramid sets. '')"
    by blast
  moreover from this(1) have "suffix b sentinel" by (rule suffixI)
  ultimately show False using no_tail_starts_performed by blast
qed

lemma weightlifting_sentence_override:
  "weightlifting_sentence env wd ne (format_sets_reps sets_reps sets_reps_custom) =
     u ''Each session includes '' @ fmt env wd @ u '' of weightlifting with '' @ fmt env ne @
     u '' performed in '' @
     fmt env (if sets_reps = JStr sentinel then sets_reps_custom else sets_reps) @ u ''. ''"
  by (simp add: weightlifting_sentence_def format_sets_reps_def sentinel_def)

lemma sublist_skip: "sublist s ys \<Longrightarrow> sublist s (xs @ ys)"
  by (simp add: sublist_append)

lemma generate_prompt_has_sentence:
  assumes "generate_prompt env first_name last_name age gender fitness_level height weight
       fitness_goals exercise_frequency workout_duration wd ne sets_reps sets_reps_custom
       workout_location available_equipment current_cardio include_cardio cardio_frequency
       cardio_length preferred_cardio_types gym_name other_equipment physical_injuries
       injury_details = Inr prompt"
  shows "sublist (weightlifting_sentence env wd ne (format_sets_reps sets_reps sets_reps_custom))
           prompt"
proof (cases "format_environment_detail env first_name workout_location gym_name
          available_equipment other_equipment")
  case (Inl e)
  with assms show ?thesis
    unfolding generate_prompt_def Let_def bind_err_def by simp
next
  case (Inr environment_detail)
  show ?thesis
    using assms unfolding generate_prompt_def Let_def bind_err_def Inr sum.case
    apply (elim Inr_inject[elim_format])
    apply (erule subst)
    apply (rule sublist_append_rightI | rule sublist_skip)+
    done
qed


text \<open>
  C6: the weightlifting sentence of the prompt is built with \<open>sets_reps_custom\<close> when
  \<open>sets_reps\<close> is \<open>I have a different style\<close> and with \<open>sets_reps\<close> otherwise, the value
  taken as it is; the prompt contains that sentence. With \<open>sets_reps\<close> the sentinel and
  \<open>sets_reps_custom\<close> \<open>Pyramid sets\<close>, the sentence contains \<open>Pyramid sets\<close>, and it does
  not contain the sentinel unless one of the two other values of the sentence does.
\<close>

theorem sets_reps_override:
  "weightlifting_sentence env wd ne (format_sets_reps sets_reps sets_reps_custom) =
     u ''Each session includes '' @ fmt env wd @ u '' of weightlifting with '' @ fmt env ne @
     u '' performed in '' @
     fmt env (if sets_reps = JStr (u ''I have a different style'')
              then sets_reps_custom else sets_reps) @ u ''. '' \<and>
   (generate_prompt env first_name last_name age gender fitness_level height weight
       fitness_goals exercise_frequency workout_duration wd ne sets_reps sets_reps_custom
       workout_location available_equipment current_cardio include_cardio cardio_frequency
       cardio_length preferred_cardio_types gym_name other_equipment physical_injuries
       injury_details = Inr prompt \<longrightarrow>
      sublist (weightlifting_sentence env wd ne (format_sets_reps sets_reps sets_reps_custom))
        prompt) \<and>
   (\<not> sublist (u ''I have a different style'') (fmt env wd) \<and>
    \<not> sublist (u ''I have a different style'') (fmt env ne) \<longrightarrow>
      sublist (u ''Pyramid sets'')
        (weightlifting_sentence env wd ne
           (format_sets_reps (JStr (u ''I have a different style'')) (JStr (u ''Pyramid sets'')))) \<and>
      \<not> sublist (u ''I have a different style'')
        (weightlifting_sentence env wd ne
           (format_sets_reps (JStr (u ''I have a different style'')) (JStr (u ''Pyramid sets'')))))"
proof (intro conjI impI)
  show "weightlifting_sentence env wd ne (format_sets_reps sets_reps sets_reps_custom) =
     u ''Each session includes '' @ fmt env wd @ u '' of weightlifting with '' @ fmt env ne @
     u '' performed in '' @
     fmt env (if sets_reps = JStr (u ''I have a different style'')
              then sets_reps_custom else sets_reps) @ u ''. ''"
    using weightlifting_sentence_override by (simp add: sentinel_def)
next
  assume "generate_prompt env first_name last_name age gender fitness_level height weight
       fitness_goals exercise_frequency workout_duration wd ne sets_reps sets_reps_custom
       workout_location available_equipment current_cardio include_cardio cardio_frequency
       cardio_length preferred_cardio_types gym_name other_equipment physical_injuries
       injury_details = Inr prompt"
  then show "sublist (weightlifting_sentence env wd ne
                (format_sets_reps sets_reps sets_reps_custom)) prompt"
    by (rule generate_prompt_has_sentence)
next
  assume h: "\<not> sublist (u ''I have a different style'') (fmt env wd) \<and>
    \<not> sublist (u ''I have a different style'') (fmt env ne)"
  have eq: "weightlifting_sentence env wd ne
           (format_sets_reps (JStr (u ''I have a different style'')) (JStr (u ''Pyramid sets''))) =
        u ''Each session includes '' @ fmt env wd @ u '' of weightlifting with '' @
        fmt env ne @ u '' performed in Pyramid sets. ''"
    by (simp add: weightlifting_sentence_def format_sets_reps_def fmt_def u_append)
  show "sublist (u ''Pyramid sets'')
        (weightlifting_sentence env wd ne
           (format_sets_reps (JStr (u ''I have a different style'')) (JStr (u ''Pyramid sets''))))"
    unfolding weightlifting_sentence_def format_sets_reps_def fmt_def
    by (simp add: sublist_append)
  show "\<not> sublist (u ''I have a different style'')
        (weightlifting_sentence env wd ne
           (format_sets_reps (JStr (u ''I have a different style'')) (JStr (u ''Pyramid sets''))))"
    unfolding eq using sentinel_not_across[of "fmt env wd" "fmt env ne"] h
    by (simp add: sentinel_def)
qed

lemma pyramid_prompt_runs: "\<exists>prompt. pyramid_prompt = Inr prompt"
  by (simp add: pyramid_prompt_def generate_prompt_def format_environment_detail_def bind_err_def)

lemma short_fields_plain:
  "\<not> sublist (u ''I have a different style'') (fmt sample_env (JStr (u ''45 minutes'')))"
  "\<not> sublist (u ''I have a different style'') (fmt sample_env (JStr (u ''5 exercises'')))"
  using sentinel_needs_capital[of "u ''45 minutes''"] sentinel_needs_capital[of "u ''5 exercises''"]
  by (auto simp: fmt_def sentinel_def u_def)

theorem sets_reps_override_witness:
  "(\<exists>prompt. pyramid_prompt = Inr prompt \<and>
      sublist (u ''Each session includes 45 minutes of weightlifting with 5 exercises performed in Pyramid sets. '')
        prompt) \<and>
   sublist (u ''Pyramid sets'')
     (u ''Each session includes 45 minutes of weightlifting with 5 exercises performed in Pyramid sets. '') \<and>
   \<not> sublist (u ''I have a different style'')
     (u ''Each session includes 45 minutes of weightlifting with 5 exercises performed in Pyramid sets. '')"
proof -
  from pyramid_prompt_runs obtain prompt where p: "pyramid_prompt = Inr prompt" by blast
  note w = sets_reps_override [where env = sample_env and wd = "JStr (u ''45 minutes'')"
      and ne = "JStr (u ''5 exercises'')" and sets_reps = "JStr (u ''I have a different style'')"
      and sets_reps_custom = "JStr (u ''Pyramid sets'')" and prompt = prompt]
  have s: "weightlifting_sentence sample_env (JStr (u ''45 minutes'')) (JStr (u ''5 exercises''))
        (format_sets_reps (JStr (u ''I have a different style'')) (JStr (u ''Pyramid sets''))) =
      u ''Each session includes 45 minutes of weightlifting with 5 exercises performed in Pyramid sets. ''"
    by (simp add: weightlifting_sentence_def format_sets_reps_def fmt_def u_append)
  from w[THEN conjunct2, THEN conjunct1, rule_format, OF p[unfolded pyramid_prompt_def]]
  have "sublist (weightlifting_sentence sample_env (JStr (u ''45 minutes''))
        (JStr (u ''5 exercises''))
        (format_sets_reps (JStr (u ''I have a different style'')) (JStr (u ''Pyramid sets''))))
      prompt" .
  with p have a: "\<exists>prompt. pyramid_prompt = Inr prompt \<and>
      sublist (u ''Each session includes 45 minutes of weightlifting with 5 exercises performed in Pyramid sets. '')
        prompt"
    unfolding s by blast
  from w[THEN conjunct2, THEN conjunct2, rule_format, OF conjI[OF short_fields_plain]]
  have "sublist (u ''Pyramid sets'')
        (weightlifting_sentence sample_env (JStr (u ''45 minutes'')) (JStr (u ''5 exercises''))
           (format_sets_reps (JStr (u ''I have a different style'')) (JStr (u ''Pyramid sets'')))) \<and>
      \<not> sublist (u ''I have a different style'')
        (weightlifting_sentence sample_env (JStr (u ''45 minutes'')) (JStr (u ''5 exercises''))
           (format_sets_reps (JStr (u ''I have a different style'')) (JStr (u ''Pyramid sets''))))" .
  with a show ?thesis unfolding s by blast
qed

section \<open>Properties of the handler\<close>

lemma bind_io_lift_Inr [simp]: "bind_io (lift_io (Inr x)) f = f x"
  by (simp add: bind_io_def lift_io_def)

lemma bind_io_lift_Inl [simp]: "bind_io (lift_io (Inl e)) f = ([], Inl e)"
  by (simp add: bind_io_def lift_io_def)

lemma bind_io_Inr: "m = (t, Inr x) \<Longrightarrow> bind_io m f = (t @ fst (f x), snd (f x))"
  by (simp add: bind_io_def)

lemma bind_io_Inl: "snd m = Inl e \<Longrightarrow> bind_io m f = (fst m, Inl e)"
  by (simp add: bind_io_def)

lemma log_and_alert_returns:
  "alert_post env = None \<Longrightarrow> log_and_alert env m = ([LogError m, Alert (m @ ''. Error: {error}'')], Inr ())"
  by (simp add: log_and_alert_def send_error_to_slack_def bind_io_def emit_def return_io_def)

lemma log_and_alert_raises:
  "alert_post env = Some e \<Longrightarrow> log_and_alert env m = ([LogError m, Alert (m @ ''. Error: {error}'')], Inl e)"
  by (simp add: log_and_alert_def send_error_to_slack_def bind_io_def emit_def raise_io_def)

lemma reply_after_alert:
  "alert_post env = None \<Longrightarrow>
   bind_io (log_and_alert env m) (\<lambda>_. return_io r) = ([LogError m, Alert (m @ ''. Error: {error}'')], Inr r)"
  by (simp add: log_and_alert_returns bind_io_def return_io_def)

lemma get_parameter_cases:
  "get_parameter env name =
     (case ssm_get_parameter env name of
        Inr v \<Rightarrow> ([SsmGetParameter name], Inr v)
      | Inl e \<Rightarrow> ([SsmGetParameter name, Alert ''Failed to get parameter {name}: {str(e)}''],
                 Inl (case alert_post env of None \<Rightarrow> e | Some e' \<Rightarrow> e')))"
  by (simp add: get_parameter_def try_except_def bind_io_def emit_def lift_io_def
        send_error_to_slack_def raise_io_def return_io_def split: sum.splits option.splits)

text \<open>
  The signature check never raises: an exception of the secret store, of the alert sent
  on its failure, or of the digest gives \<open>False\<close>. It accepts exactly when the secret is
  obtained and the encoded digest of the body is the received signature.
\<close>

lemma verify_signature_never_raises: "\<exists>b. snd (verify_signature env s p) = Inr b"
  by (auto simp: verify_signature_def try_except_def bind_io_def emit_def lift_io_def
        return_io_def get_parameter_cases split: sum.splits option.splits)

lemma verify_signature_accepts:
  "snd (verify_signature env s p) = Inr True \<longleftrightarrow>
     (\<exists>secret. ssm_get_parameter env ''typeformSecret'' = Inr secret \<and>
               hmac_sha256_base64 env secret p = Inr s)"
  by (auto simp: verify_signature_def try_except_def bind_io_def emit_def lift_io_def
        return_io_def get_parameter_cases split: sum.splits option.splits)

lemma verify_signature_accept_trace:
  "snd (verify_signature env s p) = Inr True \<Longrightarrow>
   verify_signature env s p = ([SsmGetParameter ''typeformSecret''], Inr True)"
  by (auto simp: verify_signature_def try_except_def bind_io_def emit_def lift_io_def
        return_io_def get_parameter_cases split: sum.splits option.splits if_splits)

lemma split_once_nonempty: "split_once c s = Some p \<Longrightarrow> s \<noteq> []"
  by (cases s) simp_all

lemma handler_missing:
  assumes "alert_post env = None"
      and "(case map_of (headers ev) (u ''Typeform-Signature'') of None \<Rightarrow> True | Some s \<Rightarrow> s = [])"
  shows "lambda_handler env ev =
           ([LogError ''Webhook signature is missing. Permission denied.'',
             Alert ''Webhook signature is missing. Permission denied.. Error: {error}''],
            Inr (Response 403 (Some ''Permission denied.'')))"
  using assms(2) by (simp add: lambda_handler_def reply_after_alert[OF assms(1)])

lemma handler_split:
  assumes "map_of (headers ev) (u ''Typeform-Signature'') = Some s"
      and "split_once 61 s = Some (sha_name, signature)"
  shows "lambda_handler env ev =
           (if sha_name \<noteq> u ''sha256'' then
              bind_io (log_and_alert env ''Webhook sha is invalid. Permission denied.'')
                (\<lambda>_. return_io (Response 403 (Some ''Operation not supported.'')))
            else
              bind_io (verify_signature env signature (body ev)) (\<lambda>is_valid.
                if \<not> is_valid then
                  bind_io
                    (log_and_alert env ''Webhook signature is invalid. Permission denied.'')
                    (\<lambda>_. return_io
                       (Response 403 (Some ''Invalid signature. Permission Denied.'')))
                else process_verified env (body ev)))"
  using assms split_once_nonempty[OF assms(2)] by (simp add: lambda_handler_def Let_def)

lemma handler_unsupported:
  assumes "alert_post env = None"
      and "map_of (headers ev) (u ''Typeform-Signature'') = Some s"
      and "split_once 61 s = Some (sha_name, signature)"
      and "sha_name \<noteq> u ''sha256''"
  shows "lambda_handler env ev =
           ([LogError ''Webhook sha is invalid. Permission denied.'',
             Alert ''Webhook sha is invalid. Permission denied.. Error: {error}''],
            Inr (Response 403 (Some ''Operation not supported.'')))"
  using assms(4) by (simp add: handler_split[OF assms(2,3)] reply_after_alert[OF assms(1)])

lemma split_once_None: "split_once sep s = None \<longleftrightarrow> sep \<notin> set s"
  by (induction s) (auto split: option.splits)

text \<open>
  A header that is not empty and has no \<open>=\<close> does not reach the check of the name: the
  unpacking of the split raises.
\<close>

lemma handler_header_without_separator:
  assumes "map_of (headers ev) (u ''Typeform-Signature'') = Some s" "s \<noteq> []" "61 \<notin> set s"
  shows "lambda_handler env ev = ([], Inl ValueError)"
proof -
  from assms(3) have "split_once 61 s = None" by (simp add: split_once_None)
  with assms(1,2) show ?thesis by (simp add: lambda_handler_def Let_def raise_io_def)
qed

lemma handler_mismatch:
  assumes "alert_post env = None"
      and "map_of (headers ev) (u ''Typeform-Signature'') = Some s"
      and "split_once 61 s = Some (u ''sha256'', signature)"
      and "snd (verify_signature env signature (body ev)) \<noteq> Inr True"
  shows "snd (lambda_handler env ev) =
           Inr (Response 403 (Some ''Invalid signature. Permission Denied.''))"
proof -
  from verify_signature_never_raises[of env signature "body ev"] assms(4)
  have "snd (verify_signature env signature (body ev)) = Inr False" by auto
  then obtain t where "verify_signature env signature (body ev) = (t, Inr False)"
    by (cases "verify_signature env signature (body ev)") simp
  then show ?thesis
    by (simp add: handler_split[OF assms(2,3)] bind_io_def reply_after_alert[OF assms(1), unfolded bind_io_def])
qed

lemma handler_accepted:
  assumes "signature_accepted env ev"
  shows "lambda_handler env ev =
           (SsmGetParameter ''typeformSecret'' # fst (process_verified env (body ev)),
            snd (process_verified env (body ev)))"
proof -
  from assms obtain s signature where
    h: "map_of (headers ev) (u ''Typeform-Signature'') = Some s"
       "split_once 61 s = Some (u ''sha256'', signature)"
       "snd (verify_signature env signature (body ev)) = Inr True"
    by (auto simp: signature_accepted_def split: option.splits)
  show ?thesis
    by (simp add: handler_split[OF h(1,2)] bind_io_Inr[OF verify_signature_accept_trace[OF h(3)]])
qed

lemma process_verified_ids:
  "request_ids env raw = Some (parsed, form_id, token, user_id) \<Longrightarrow>
   process_verified env raw = resolve_identity env parsed form_id token user_id"
  by (auto simp: request_ids_def process_verified_def split: sum.splits)


lemma get_cognito_user_run:
  "get_cognito_user env user_id = ([CognitoGetUser user_id], admin_get_user env user_id)"
  by (simp add: get_cognito_user_def call_value_def bind_io_def emit_def lift_io_def)

lemma update_user_run:
  "update_user env user_id form_id token =
     ([CognitoUpdateUser user_id form_id token],
      case admin_update_user_attributes env user_id form_id token of
        None \<Rightarrow> Inr () | Some e \<Rightarrow> Inl e)"
  by (simp add: update_user_def call_unit_def bind_io_def emit_def return_io_def raise_io_def
        split: option.splits)

lemma identity_lookup_failure:
  assumes "alert_post env = None" and "admin_get_user env user_id = Inl e"
  shows "resolve_identity env parsed form_id token user_id =
           ([CognitoGetUser user_id,
             LogError (if e = UserNotFoundException
                       then ''Failed to get user from cognito: User {user_id} not found.''
                       else ''Failed to get user from cognito.''),
             Alert ((if e = UserNotFoundException
                    then ''Failed to get user from cognito: User {user_id} not found.''
                    else ''Failed to get user from cognito.'') @ ''. Error: {error}'')],
            Inr (Response 200 (Some ''User not found.'')))"
  by (simp add: resolve_identity_def try_except_else_def get_cognito_user_run assms(2)
        reply_after_alert[OF assms(1)])

lemma identity_update_failure:
  assumes "alert_post env = None" and "admin_get_user env user_id = Inr attrs"
      and "admin_update_user_attributes env user_id form_id token = Some e"
  shows "resolve_identity env parsed form_id token user_id =
           ([CognitoGetUser user_id, CognitoUpdateUser user_id form_id token,
             LogError ''Unable to update user {user_id} with typeformIds.'',
             Alert ''Unable to update user {user_id} with typeformIds.. Error: {error}''],
            Inr (Response 200 (Some ''Unable to update user with typeformIds.'')))"
  by (simp add: resolve_identity_def try_except_else_def get_cognito_user_run update_user_run
        assms(2,3) reply_after_alert[OF assms(1)] Let_def)

lemma identity_resolved:
  assumes "admin_get_user env user_id = Inr attrs"
      and "admin_update_user_attributes env user_id form_id token = None"
  shows "resolve_identity env parsed form_id token user_id =
           (CognitoGetUser user_id # CognitoUpdateUser user_id form_id token #
              fst (bind_io (compose_prompt env parsed
                              (get_cognito_user_attribute attrs (u ''given_name''))
                              (get_cognito_user_attribute attrs (u ''family_name'')))
                     (deliver env user_id)),
            snd (bind_io (compose_prompt env parsed
                            (get_cognito_user_attribute attrs (u ''given_name''))
                            (get_cognito_user_attribute attrs (u ''family_name'')))
                   (deliver env user_id)))"
  by (simp add: resolve_identity_def try_except_else_def get_cognito_user_run update_user_run
        assms Let_def)

lemma deliver_notification_failure:
  "snd (send_to_slack env prompt) = Inl e \<Longrightarrow>
   deliver env user_id prompt = (fst (send_to_slack env prompt), Inl e)"
  by (simp add: deliver_def bind_io_Inl)

lemma deliver_persistence_failure:
  assumes "alert_post env = None" and "send_to_slack env prompt = (ts, Inr ())"
      and "snd (save_to_db env user_id prompt) = Inl e"
  shows "deliver env user_id prompt =
           (ts @ fst (save_to_db env user_id prompt) @
              [LogError ''Unable to save user story to db'',
               Alert ''Unable to save user story to db. Error: {error}''],
            Inr (Response 200 (Some ''Unable to save user story to db.'')))"
  by (simp add: deliver_def bind_io_Inr[OF assms(2)] try_except_else_def assms(3)
        reply_after_alert[OF assms(1)])

lemma signal_run:
  assumes "alert_post env = None"
  shows "try_except (call_unit (SqsSendMessage user_id) (sqs_send_message env user_id))
           (\<lambda>e. log_and_alert env
                   ''Unable to send initiate generate workout flow for user {user_id}'') =
         (SqsSendMessage user_id #
            (case sqs_send_message env user_id of
               None \<Rightarrow> []
             | Some e \<Rightarrow>
                 [LogError ''Unable to send initiate generate workout flow for user {user_id}'',
                  Alert ''Unable to send initiate generate workout flow for user {user_id}. Error: {error}'']),
          Inr ())"
  by (simp add: try_except_def call_unit_def bind_io_def emit_def return_io_def raise_io_def
        log_and_alert_returns[OF assms] split: option.splits)

lemma deliver_signalled:
  assumes "alert_post env = None" and "send_to_slack env prompt = (ts, Inr ())"
      and "save_to_db env user_id prompt = (td, Inr ())"
  shows "deliver env user_id prompt =
           (ts @ td @ SqsSendMessage user_id #
              (case sqs_send_message env user_id of
                 None \<Rightarrow> []
               | Some e \<Rightarrow>
                   [LogError ''Unable to send initiate generate workout flow for user {user_id}'',
                    Alert ''Unable to send initiate generate workout flow for user {user_id}. Error: {error}'']),
            Inr (Response 200 None))"
  by (simp add: deliver_def assms(2) try_except_else_def assms(3)
        signal_run[OF assms(1)] bind_io_def return_io_def)


lemma silent_bind: "silent m \<Longrightarrow> (\<And>x. silent (f x)) \<Longrightarrow> silent (bind_io m f)"
  by (auto simp: silent_def bind_io_def split: sum.splits)

lemma silent_try_except: "silent m \<Longrightarrow> (\<And>e. silent (h e)) \<Longrightarrow> silent (try_except m h)"
  by (auto simp: silent_def try_except_def split: sum.splits)

lemma silent_basic:
  "silent (lift_io r)" "silent (return_io x)" "silent (raise_io e)"
  "silent (emit (Alert m))" "silent (emit (LogError m))" "silent (emit (SsmGetParameter n))"
  by (simp_all add: silent_def lift_io_def return_io_def raise_io_def emit_def)

lemma silent_send_error_to_slack: "silent (send_error_to_slack env m)"
  unfolding send_error_to_slack_def
  by (intro silent_bind silent_basic) (simp add: silent_basic split: option.splits)

lemma silent_log_and_alert: "silent (log_and_alert env m)"
  unfolding log_and_alert_def by (intro silent_bind silent_basic silent_send_error_to_slack)

lemma silent_extraction:
  "silent (get_question_id_to_title env d)"
  "silent (map_question_id_to_answer env a)"
  "silent (safe_get_answer env p q)"
  "silent (calculate_age env b)"
  unfolding get_question_id_to_title_def map_question_id_to_answer_def safe_get_answer_def
    calculate_age_def
  by (intro silent_try_except silent_bind silent_basic silent_send_error_to_slack
        silent_log_and_alert)+

lemma silent_compose_prompt: "silent (compose_prompt env parsed first_name last_name)"
  unfolding compose_prompt_def Let_def
  by (intro silent_bind silent_basic silent_extraction)

lemma silent_get_parameter: "silent (get_parameter env n)"
  unfolding get_parameter_def
  by (intro silent_try_except silent_bind silent_basic silent_send_error_to_slack)

lemma silent_send_to_slack: "silent (send_to_slack env prompt)"
  unfolding send_to_slack_def
  by (intro silent_try_except silent_bind silent_basic silent_send_error_to_slack
        silent_get_parameter)
     (simp add: silent_def call_unit_def bind_io_def emit_def return_io_def raise_io_def
        split: option.splits)

lemma silent_save_to_db: "silent (save_to_db env user_id prompt)"
  by (simp add: silent_def save_to_db_def call_value_def call_unit_def bind_io_def emit_def
        lift_io_def return_io_def raise_io_def split: sum.splits option.splits)

lemma bind_io_fails_first: "isl (snd m) \<Longrightarrow> isl (snd (bind_io m f))"
  by (auto simp: bind_io_def split: sum.splits)

lemma bind_io_fails_later: "snd m = Inr x \<Longrightarrow> isl (snd (f x)) \<Longrightarrow> isl (snd (bind_io m f))"
  by (auto simp: bind_io_def split: sum.splits)

lemma compose_prompt_extraction_failure:
  assumes "bind_err (subscript parsed (u ''form_response'')) (\<lambda>r. subscript r (u ''definition'')) =
             Inr form_definition"
      and "bind_err (subscript parsed (u ''form_response'')) (\<lambda>r. subscript r (u ''answers'')) =
             Inr form_answers"
      and "isl (snd (get_question_id_to_title env form_definition)) \<or>
           isl (snd (map_question_id_to_answer env form_answers))"
  shows "isl (snd (compose_prompt env parsed first_name last_name))"
proof (cases "snd (get_question_id_to_title env form_definition)")
  case (Inl e)
  then have "isl (snd (get_question_id_to_title env form_definition))" by simp
  then show ?thesis
    unfolding compose_prompt_def assms(1,2) bind_io_lift_Inr
    by (rule bind_io_fails_first)
next
  case (Inr titles)
  with assms(3) have e: "isl (snd (map_question_id_to_answer env form_answers))"
    by auto
  show ?thesis
    unfolding compose_prompt_def assms(1,2) bind_io_lift_Inr
    by (rule bind_io_fails_later[OF Inr]) (rule bind_io_fails_first[OF e])
qed

lemma signed_titles:
  "get_question_id_to_title env birthdate_definition =
     ([], Inr [(JStr (u ''VYsICm8rAEYx''), JStr (u ''Date of birth''))])"
  by (simp add: get_question_id_to_title_def try_except_def lift_io_def bind_err_def
        birthdate_definition_def)

lemma signed_answers:
  "map_question_id_to_answer env (JArr [birthdate_answer]) =
     ([], Inr [(JStr (u ''VYsICm8rAEYx''), JStr (u ''1990-06-15''))])"
  by (simp add: map_question_id_to_answer_def try_except_def lift_io_def bind_err_def
        process_answer_def answer_value_def birthdate_answer_def)

lemma signed_pairs:
  "merge_pairs [(JStr (u ''VYsICm8rAEYx''), JStr (u ''Date of birth''))]
     [(JStr (u ''VYsICm8rAEYx''), JStr (u ''1990-06-15''))] =
   [(JStr (u ''VYsICm8rAEYx''),
     JObj [(u ''title'', JStr (u ''Date of birth'')), (u ''answer'', JStr (u ''1990-06-15''))])]"
  by (simp add: merge_pairs_def)

lemma signed_lookup:
  "safe_get_answer env
     [(JStr (u ''VYsICm8rAEYx''),
       JObj [(u ''title'', JStr (u ''Date of birth'')), (u ''answer'', JStr (u ''1990-06-15''))])]
     (u q) =
   ([], Inr (if q = ''VYsICm8rAEYx'' then JStr (u ''1990-06-15'') else JStr (u ''Not provided'')))"
  by (simp add: safe_get_answer_def try_except_def lift_io_def dict_get_def)

lemma signed_age:
  assumes "now env = \<lparr>year = 2024, month = 6, day = 14\<rparr>" "unicode_digit env = ascii_digit"
  shows "calculate_age env (JStr (u ''1990-06-15'')) = ([], Inr 33)"
proof -
  have "\<forall>c. 48 \<le> c \<and> c \<le> 57 \<longrightarrow> unicode_digit env c = Some (c - 48)"
    by (simp add: assms(2) ascii_digit_def)
  from calculate_age_parsed[OF strptime_sample[OF this]] show ?thesis
    by (simp add: assms(1))
qed

lemma bind_io_pure: "bind_io ([], Inr x) f = f x"
  by (simp add: bind_io_def)

lemma birthdate_only_prompt_plain: "remove_emojis birthdate_only_prompt = birthdate_only_prompt"
  by (simp add: remove_emojis_filter filter_id_conv birthdate_only_prompt_def u_def
        emoji_pattern_def)

lemma signed_generate:
  "generate_prompt env (JStr (u ''Ada'')) (JStr (u ''Byron'')) 33
     (JStr (u ''Not provided'')) (JStr (u ''Not provided'')) (JStr (u ''Not provided''))
     (JStr (u ''Not provided'')) (JStr (u ''Not provided'')) (JStr (u ''Not provided''))
     (JStr (u ''Not provided'')) (JStr (u ''Not provided'')) (JStr (u ''Not provided''))
     (JStr (u ''Not provided'')) (JStr (u ''Not provided'')) (JStr (u ''Not provided''))
     (JStr (u ''Not provided'')) (JStr (u ''Not provided'')) (JStr (u ''Not provided''))
     (JStr (u ''Not provided'')) (JStr (u ''Not provided'')) (JStr (u ''Not provided''))
     (JStr (u ''Not provided'')) (JStr (u ''Not provided'')) (JStr (u ''Not provided''))
     (JStr (u ''Not provided'')) = Inr birthdate_only_prompt"
  by (simp add: generate_prompt_def format_environment_detail_def format_cardio_detail_def
        format_injury_detail_def format_sets_reps_def weightlifting_sentence_def fmt_def
        py_join_def bind_err_def str_int_def digits.simps birthdate_only_prompt_def u_def)

lemma signed_compose:
  assumes "now env = \<lparr>year = 2024, month = 6, day = 14\<rparr>" "unicode_digit env = ascii_digit"
  shows "compose_prompt env signed_body (JStr (u ''Ada'')) (JStr (u ''Byron'')) =
           ([], Inr birthdate_only_prompt)"
  by (simp add: compose_prompt_def signed_body_def bind_err_def signed_titles signed_answers
        signed_pairs signed_lookup signed_age[OF assms] bind_io_pure signed_generate
        birthdate_only_prompt_plain lift_io_def return_io_def)

lemma process_verified_unreadable:
  "request_ids env raw = None \<Longrightarrow> isl (snd (process_verified env raw))"
  by (auto simp: request_ids_def process_verified_def split: sum.splits)

lemma handler_after_identity:
  assumes acc: "signature_accepted env ev"
      and ids: "request_ids env (body ev) = Some (parsed, form_id, token, user_id)"
  shows "lambda_handler env ev =
           (SsmGetParameter ''typeformSecret'' #
              fst (resolve_identity env parsed form_id token user_id),
            snd (resolve_identity env parsed form_id token user_id))"
  by (simp add: handler_accepted[OF acc] process_verified_ids[OF ids])

lemma handler_pipeline:
  assumes acc: "signature_accepted env ev"
      and ids: "request_ids env (body ev) = Some (parsed, form_id, token, user_id)"
      and usr: "admin_get_user env user_id = Inr attrs"
      and upd: "admin_update_user_attributes env user_id form_id token = None"
  shows "lambda_handler env ev =
           (SsmGetParameter ''typeformSecret'' # CognitoGetUser user_id #
              CognitoUpdateUser user_id form_id token #
              fst (bind_io (compose_prompt env parsed
                              (get_cognito_user_attribute attrs (u ''given_name''))
                              (get_cognito_user_attribute attrs (u ''family_name'')))
                     (deliver env user_id)),
            snd (bind_io (compose_prompt env parsed
                            (get_cognito_user_attribute attrs (u ''given_name''))
                            (get_cognito_user_attribute attrs (u ''family_name'')))
                   (deliver env user_id)))"
  by (simp add: handler_after_identity[OF acc ids] identity_resolved[OF usr upd])

lemma bind_io_snd_Inr:
  "snd m = Inr x \<Longrightarrow> bind_io m f = (fst m @ fst (f x), snd (f x))"
  by (simp add: bind_io_def)

text \<open>
  The outcomes of the handler in an environment where the POST of the alert returns, which
  is the case only once the placeholder of \<open>send_error_to_slack\<close> has been replaced by
  a URL that answers: a missing or empty signature header, a header \<open>name=value\<close> whose
  name is not \<open>sha256\<close>, and a signature that does not verify each give a 403 response.
  Once the signature is accepted, a body from which the identifiers cannot be read makes
  the handler raise; when they are read: a failed lookup of the user (not found or any
  other exception) and a failed update of the user each give a 200 response with a detail,
  and the trace ends with the alert; an exception of the extraction or of the composition,
  and an exception of the notification, leave the handler; a failed write of the story
  gives a 200 response with a detail and nothing is sent to the queue; a failed send to
  the queue is logged and alerted and the response is 200 all the same.
\<close>

lemma alert_returns_outcomes:
  assumes alert: "alert_post env = None"
  shows
  "((case map_of (headers ev) (u ''Typeform-Signature'') of None \<Rightarrow> True | Some s \<Rightarrow> s = []) \<longrightarrow>
      snd (lambda_handler env ev) = Inr (Response 403 (Some ''Permission denied.''))) \<and>
   (map_of (headers ev) (u ''Typeform-Signature'') = Some s \<and>
    split_once 61 s = Some (sha_name, signature) \<and> sha_name \<noteq> u ''sha256'' \<longrightarrow>
      snd (lambda_handler env ev) = Inr (Response 403 (Some ''Operation not supported.''))) \<and>
   (map_of (headers ev) (u ''Typeform-Signature'') = Some s \<and>
    split_once 61 s = Some (u ''sha256'', signature) \<and>
    snd (verify_signature env signature (body ev)) \<noteq> Inr True \<longrightarrow>
      snd (lambda_handler env ev) =
        Inr (Response 403 (Some ''Invalid signature. Permission Denied.''))) \<and>
   (signature_accepted env ev \<and> request_ids env (body ev) = None \<longrightarrow>
      isl (snd (lambda_handler env ev))) \<and>
   (signature_accepted env ev \<and>
    request_ids env (body ev) = Some (parsed, form_id, token, user_id) \<longrightarrow>
      (admin_get_user env user_id = Inl e \<longrightarrow>
         lambda_handler env ev =
           ([SsmGetParameter ''typeformSecret'', CognitoGetUser user_id,
             LogError (if e = UserNotFoundException
                       then ''Failed to get user from cognito: User {user_id} not found.''
                       else ''Failed to get user from cognito.''),
             Alert ((if e = UserNotFoundException
                    then ''Failed to get user from cognito: User {user_id} not found.''
                    else ''Failed to get user from cognito.'') @ ''. Error: {error}'')],
            Inr (Response 200 (Some ''User not found.'')))) \<and>
      (admin_get_user env user_id = Inr attrs \<and>
       admin_update_user_attributes env user_id form_id token = Some e \<longrightarrow>
         lambda_handler env ev =
           ([SsmGetParameter ''typeformSecret'', CognitoGetUser user_id,
             CognitoUpdateUser user_id form_id token,
             LogError ''Unable to update user {user_id} with typeformIds.'',
             Alert ''Unable to update user {user_id} with typeformIds.. Error: {error}''],
            Inr (Response 200 (Some ''Unable to update user with typeformIds.'')))) \<and>
      (admin_get_user env user_id = Inr attrs \<and>
       admin_update_user_attributes env user_id form_id token = None \<longrightarrow>
         (bind_err (subscript parsed (u ''form_response''))
            (\<lambda>r. subscript r (u ''definition'')) = Inr form_definition \<and>
          bind_err (subscript parsed (u ''form_response''))
            (\<lambda>r. subscript r (u ''answers'')) = Inr form_answers \<and>
          (isl (snd (get_question_id_to_title env form_definition)) \<or>
           isl (snd (map_question_id_to_answer env form_answers))) \<longrightarrow>
            isl (snd (lambda_handler env ev))) \<and>
         (snd (compose_prompt env parsed
                 (get_cognito_user_attribute attrs (u ''given_name''))
                 (get_cognito_user_attribute attrs (u ''family_name''))) = Inl e \<longrightarrow>
            snd (lambda_handler env ev) = Inl e) \<and>
         (snd (compose_prompt env parsed
                 (get_cognito_user_attribute attrs (u ''given_name''))
                 (get_cognito_user_attribute attrs (u ''family_name''))) = Inr prompt \<longrightarrow>
            (snd (send_to_slack env prompt) = Inl e \<longrightarrow> snd (lambda_handler env ev) = Inl e) \<and>
            (snd (send_to_slack env prompt) = Inr () \<longrightarrow>
               (snd (save_to_db env user_id prompt) = Inl e \<longrightarrow>
                  snd (lambda_handler env ev) =
                    Inr (Response 200 (Some ''Unable to save user story to db.'')) \<and>
                  (\<forall>x. SqsSendMessage x \<notin> set (fst (lambda_handler env ev)))) \<and>
               (snd (save_to_db env user_id prompt) = Inr () \<longrightarrow>
                  snd (lambda_handler env ev) = Inr (Response 200 None) \<and>
                  (sqs_send_message env user_id = Some e \<longrightarrow>
                     suffix
                       [SqsSendMessage user_id,
                        LogError ''Unable to send initiate generate workout flow for user {user_id}'',
                        Alert ''Unable to send initiate generate workout flow for user {user_id}. Error: {error}'']
                       (fst (lambda_handler env ev))))))))"
proof (intro conjI impI; (elim conjE)?)
  assume "case map_of (headers ev) (u ''Typeform-Signature'') of None \<Rightarrow> True | Some s \<Rightarrow> s = []"
  then show "snd (lambda_handler env ev) = Inr (Response 403 (Some ''Permission denied.''))"
    by (simp add: handler_missing[OF alert])
next
  assume "map_of (headers ev) (u ''Typeform-Signature'') = Some s"
    "split_once 61 s = Some (sha_name, signature)" "sha_name \<noteq> u ''sha256''"
  then show "snd (lambda_handler env ev) = Inr (Response 403 (Some ''Operation not supported.''))"
    by (simp add: handler_unsupported[OF alert])
next
  assume "map_of (headers ev) (u ''Typeform-Signature'') = Some s"
    "split_once 61 s = Some (u ''sha256'', signature)"
    "snd (verify_signature env signature (body ev)) \<noteq> Inr True"
  then show "snd (lambda_handler env ev) =
        Inr (Response 403 (Some ''Invalid signature. Permission Denied.''))"
    by (rule handler_mismatch[OF alert])
next
  assume acc: "signature_accepted env ev" and "request_ids env (body ev) = None"
  then show "isl (snd (lambda_handler env ev))"
    by (simp add: handler_accepted[OF acc] process_verified_unreadable)
next
  assume acc: "signature_accepted env ev"
    and ids: "request_ids env (body ev) = Some (parsed, form_id, token, user_id)"
    and "admin_get_user env user_id = Inl e"
  then show "lambda_handler env ev =
           ([SsmGetParameter ''typeformSecret'', CognitoGetUser user_id,
             LogError (if e = UserNotFoundException
                       then ''Failed to get user from cognito: User {user_id} not found.''
                       else ''Failed to get user from cognito.''),
             Alert ((if e = UserNotFoundException
                    then ''Failed to get user from cognito: User {user_id} not found.''
                    else ''Failed to get user from cognito.'') @ ''. Error: {error}'')],
            Inr (Response 200 (Some ''User not found.'')))"
    by (simp add: handler_after_identity[OF acc ids] identity_lookup_failure[OF alert])
next
  assume acc: "signature_accepted env ev"
    and ids: "request_ids env (body ev) = Some (parsed, form_id, token, user_id)"
    and "admin_get_user env user_id = Inr attrs"
    and "admin_update_user_attributes env user_id form_id token = Some e"
  then show "lambda_handler env ev =
           ([SsmGetParameter ''typeformSecret'', CognitoGetUser user_id,
             CognitoUpdateUser user_id form_id token,
             LogError ''Unable to update user {user_id} with typeformIds.'',
             Alert ''Unable to update user {user_id} with typeformIds.. Error: {error}''],
            Inr (Response 200 (Some ''Unable to update user with typeformIds.'')))"
    by (simp add: handler_after_identity[OF acc ids] identity_update_failure[OF alert])
next
  assume acc: "signature_accepted env ev"
    and ids: "request_ids env (body ev) = Some (parsed, form_id, token, user_id)"
    and usr: "admin_get_user env user_id = Inr attrs"
    and upd: "admin_update_user_attributes env user_id form_id token = None"
  note run = handler_pipeline[OF acc ids usr upd]
  let ?composed = "compose_prompt env parsed
                 (get_cognito_user_attribute attrs (u ''given_name''))
                 (get_cognito_user_attribute attrs (u ''family_name''))"
  {
    assume "bind_err (subscript parsed (u ''form_response''))
            (\<lambda>r. subscript r (u ''definition'')) = Inr form_definition"
      "bind_err (subscript parsed (u ''form_response''))
            (\<lambda>r. subscript r (u ''answers'')) = Inr form_answers"
      "isl (snd (get_question_id_to_title env form_definition)) \<or>
           isl (snd (map_question_id_to_answer env form_answers))"
    then have "isl (snd ?composed)" by (rule compose_prompt_extraction_failure)
    then show "isl (snd (lambda_handler env ev))"
      unfolding run by (simp add: bind_io_fails_first)
  }
  {
    assume "snd ?composed = Inl e"
    then show "snd (lambda_handler env ev) = Inl e"
      unfolding run by (simp add: bind_io_Inl)
  }
  {
    assume c: "snd ?composed = Inr prompt"
    have run': "lambda_handler env ev =
        (SsmGetParameter ''typeformSecret'' # CognitoGetUser user_id #
           CognitoUpdateUser user_id form_id token # fst ?composed @
           fst (deliver env user_id prompt),
         snd (deliver env user_id prompt))"
      unfolding run by (simp add: bind_io_snd_Inr[OF c])
    {
      assume "snd (send_to_slack env prompt) = Inl e"
      then show "snd (lambda_handler env ev) = Inl e"
        unfolding run' by (simp add: deliver_notification_failure)
    }
    {
      assume "snd (send_to_slack env prompt) = Inr ()"
      then have ok: "send_to_slack env prompt = (fst (send_to_slack env prompt), Inr ())"
        by (cases "send_to_slack env prompt") simp
      {
        assume f: "snd (save_to_db env user_id prompt) = Inl e"
        note d = deliver_persistence_failure[OF alert ok f]
        show "snd (lambda_handler env ev) =
                Inr (Response 200 (Some ''Unable to save user story to db.''))"
          unfolding run' d by simp
        show "\<forall>x. SqsSendMessage x \<notin> set (fst (lambda_handler env ev))"
          unfolding run' d
          using silent_compose_prompt[of env parsed
                  "get_cognito_user_attribute attrs (u ''given_name'')"
                  "get_cognito_user_attribute attrs (u ''family_name'')"]
                silent_send_to_slack[of env prompt] silent_save_to_db[of env user_id prompt]
          by (auto simp: silent_def)
      }
      {
        assume "snd (save_to_db env user_id prompt) = Inr ()"
        then have saved: "save_to_db env user_id prompt =
            (fst (save_to_db env user_id prompt), Inr ())"
          by (cases "save_to_db env user_id prompt") simp
        note d = deliver_signalled[OF alert ok saved]
        show "snd (lambda_handler env ev) = Inr (Response 200 None)"
          unfolding run' d by simp
        show "suffix
                [SqsSendMessage user_id,
                 LogError ''Unable to send initiate generate workout flow for user {user_id}'',
                 Alert ''Unable to send initiate generate workout flow for user {user_id}. Error: {error}'']
                (fst (lambda_handler env ev))"
          if "sqs_send_message env user_id = Some e"
          unfolding run' d using that
          by (simp add: suffix_def)
      }
    }
  }
qed


lemma signed_accepted:
  assumes "ssm_get_parameter env ''typeformSecret'' = Inr (u ''secret'')"
      and "hmac_sha256_base64 env (u ''secret'') (u ''payload'') = Inr (u ''secretpayload'')"
  shows "signature_accepted env signed_event"
proof -
  have "split_once 61 (u ''sha256=secretpayload'') = Some (u ''sha256'', u ''secretpayload'')"
    by (simp add: u_def)
  moreover have "snd (verify_signature env (u ''secretpayload'') (u ''payload'')) = Inr True"
    using assms by (auto simp: verify_signature_accepts)
  ultimately show ?thesis
    by (simp add: signature_accepted_def signed_event_def)
qed

lemma signed_ids:
  assumes "json_loads env (u ''payload'') = Inr signed_body"
  shows "request_ids env (body signed_event) =
           Some (signed_body, JStr (u ''form-1''), JStr (u ''token-1''), JStr (u ''user-1''))"
  using assms by (simp add: request_ids_def signed_event_def bind_err_def signed_body_def)

lemma send_to_slack_delivered:
  assumes "ssm_get_parameter env ''slackWebhookUrl'' = Inr url" "slack_post env url prompt = None"
  shows "snd (send_to_slack env prompt) = Inr ()"
  using assms
  by (simp add: send_to_slack_def try_except_def get_parameter_cases bind_io_def call_unit_def
        emit_def return_io_def)

lemma save_to_db_outcome:
  "snd (save_to_db env user_id prompt) =
     (case dynamodb_query env user_id of
        Inl e \<Rightarrow> Inl e
      | Inr existing \<Rightarrow>
          if existing then Inr ()
          else (case dynamodb_put_item env user_id prompt of None \<Rightarrow> Inr () | Some e \<Rightarrow> Inl e))"
  by (simp add: save_to_db_def call_value_def call_unit_def bind_io_def emit_def lift_io_def
        return_io_def raise_io_def split: sum.splits option.splits)

lemma sample_attributes:
  "get_cognito_user_attribute [(u ''given_name'', u ''Ada''), (u ''family_name'', u ''Byron'')]
     (u ''given_name'') = JStr (u ''Ada'')"
  "get_cognito_user_attribute [(u ''given_name'', u ''Ada''), (u ''family_name'', u ''Byron'')]
     (u ''family_name'') = JStr (u ''Byron'')"
  by simp_all

lemma alert_returns_outcomes_sample:
  "snd (lambda_handler sample_env unsigned_event) =
     Inr (Response 403 (Some ''Permission denied.'')) \<and>
   snd (lambda_handler sample_env md5_event) =
     Inr (Response 403 (Some ''Operation not supported.'')) \<and>
   snd (lambda_handler serving_env forged_event) =
     Inr (Response 403 (Some ''Invalid signature. Permission Denied.'')) \<and>
   lambda_handler missing_user_env signed_event =
     ([SsmGetParameter ''typeformSecret'', CognitoGetUser (JStr (u ''user-1'')),
       LogError ''Failed to get user from cognito: User {user_id} not found.'',
       Alert ''Failed to get user from cognito: User {user_id} not found.. Error: {error}''],
      Inr (Response 200 (Some ''User not found.''))) \<and>
   snd (lambda_handler db_down_env signed_event) =
     Inr (Response 200 (Some ''Unable to save user story to db.'')) \<and>
   snd (lambda_handler queue_down_env signed_event) = Inr (Response 200 None) \<and>
   snd (lambda_handler serving_env signed_event) = Inr (Response 200 None) \<and>
   isl (snd (lambda_handler sample_env signed_event))"
proof -
  have quiet: "alert_post sample_env = None" "alert_post serving_env = None"
    "alert_post missing_user_env = None" "alert_post db_down_env = None"
    "alert_post queue_down_env = None"
    by (simp_all add: sample_env_def serving_env_def missing_user_env_def db_down_env_def
          queue_down_env_def)
  have 1: "snd (lambda_handler sample_env unsigned_event) =
     Inr (Response 403 (Some ''Permission denied.''))"
    using alert_returns_outcomes[OF quiet(1), where ev = unsigned_event]
    by (simp add: unsigned_event_def)
  have "split_once 61 (u ''md5=abc'') = Some (u ''md5'', u ''abc'')" by (simp add: u_def)
  then have 2: "snd (lambda_handler sample_env md5_event) =
     Inr (Response 403 (Some ''Operation not supported.''))"
    using alert_returns_outcomes[OF quiet(1), where ev = md5_event and s = "u ''md5=abc''"
            and sha_name = "u ''md5''" and signature = "u ''abc''"]
    by (simp add: md5_event_def u_eq_iff)
  have "split_once 61 (u ''sha256=forged'') = Some (u ''sha256'', u ''forged'')"
    by (simp add: u_def)
  moreover have "snd (verify_signature serving_env (u ''forged'') (u ''payload'')) \<noteq> Inr True"
    by (simp add: verify_signature_accepts serving_env_def sample_env_def u_def)
  ultimately have 3: "snd (lambda_handler serving_env forged_event) =
     Inr (Response 403 (Some ''Invalid signature. Permission Denied.''))"
    using alert_returns_outcomes[OF quiet(2), where ev = forged_event and s = "u ''sha256=forged''"
            and signature = "u ''forged''"]
    by (simp add: forged_event_def)
  have acc: "signature_accepted serving_env signed_event"
    "signature_accepted missing_user_env signed_event"
    "signature_accepted db_down_env signed_event"
    "signature_accepted queue_down_env signed_event"
    by (rule signed_accepted;
        simp add: serving_env_def sample_env_def missing_user_env_def db_down_env_def
          queue_down_env_def u_append)+
  have ids: "request_ids serving_env (body signed_event) =
           Some (signed_body, JStr (u ''form-1''), JStr (u ''token-1''), JStr (u ''user-1''))"
    "request_ids missing_user_env (body signed_event) =
           Some (signed_body, JStr (u ''form-1''), JStr (u ''token-1''), JStr (u ''user-1''))"
    "request_ids db_down_env (body signed_event) =
           Some (signed_body, JStr (u ''form-1''), JStr (u ''token-1''), JStr (u ''user-1''))"
    "request_ids queue_down_env (body signed_event) =
           Some (signed_body, JStr (u ''form-1''), JStr (u ''token-1''), JStr (u ''user-1''))"
    by (rule signed_ids;
        simp add: serving_env_def sample_env_def missing_user_env_def db_down_env_def
          queue_down_env_def)+
  have 4: "lambda_handler missing_user_env signed_event =
     ([SsmGetParameter ''typeformSecret'', CognitoGetUser (JStr (u ''user-1'')),
       LogError ''Failed to get user from cognito: User {user_id} not found.'',
       Alert ''Failed to get user from cognito: User {user_id} not found.. Error: {error}''],
      Inr (Response 200 (Some ''User not found.'')))"
    using alert_returns_outcomes[OF quiet(3), where ev = signed_event and parsed = signed_body
            and form_id = "JStr (u ''form-1'')" and token = "JStr (u ''token-1'')"
            and user_id = "JStr (u ''user-1'')" and e = UserNotFoundException]
          acc(2) ids(2)
    by (simp add: missing_user_env_def)
  have composed: "compose_prompt env signed_body (JStr (u ''Ada'')) (JStr (u ''Byron'')) =
           ([], Inr birthdate_only_prompt)"
    if "env = serving_env \<or> env = db_down_env \<or> env = queue_down_env" for env
    using that
    by (intro signed_compose)
       (auto simp: serving_env_def sample_env_def db_down_env_def queue_down_env_def)
  have served: "admin_get_user env (JStr (u ''user-1'')) =
        Inr [(u ''given_name'', u ''Ada''), (u ''family_name'', u ''Byron'')] \<and>
      admin_update_user_attributes env (JStr (u ''user-1'')) (JStr (u ''form-1''))
        (JStr (u ''token-1'')) = None \<and>
      snd (send_to_slack env birthdate_only_prompt) = Inr ()"
    if "env = serving_env \<or> env = db_down_env \<or> env = queue_down_env" for env
    using that
    by (auto simp: serving_env_def sample_env_def db_down_env_def queue_down_env_def
          send_to_slack_delivered)
  have 5: "snd (lambda_handler db_down_env signed_event) =
     Inr (Response 200 (Some ''Unable to save user story to db.''))"
    using alert_returns_outcomes[OF quiet(4), where ev = signed_event and parsed = signed_body
            and form_id = "JStr (u ''form-1'')" and token = "JStr (u ''token-1'')"
            and user_id = "JStr (u ''user-1'')" and e = ClientError
            and attrs = "[(u ''given_name'', u ''Ada''), (u ''family_name'', u ''Byron'')]"
            and prompt = birthdate_only_prompt]
          acc(3) ids(3) composed[of db_down_env] served[of db_down_env]
    by (simp add: sample_attributes save_to_db_outcome db_down_env_def)
  have 6: "snd (lambda_handler queue_down_env signed_event) = Inr (Response 200 None)"
    using alert_returns_outcomes[OF quiet(5), where ev = signed_event and parsed = signed_body
            and form_id = "JStr (u ''form-1'')" and token = "JStr (u ''token-1'')"
            and user_id = "JStr (u ''user-1'')" and e = ClientError
            and attrs = "[(u ''given_name'', u ''Ada''), (u ''family_name'', u ''Byron'')]"
            and prompt = birthdate_only_prompt]
          acc(4) ids(4) composed[of queue_down_env] served[of queue_down_env]
    by (simp add: sample_attributes save_to_db_outcome queue_down_env_def serving_env_def
          sample_env_def)
  have 7: "snd (lambda_handler serving_env signed_event) = Inr (Response 200 None)"
    using alert_returns_outcomes[OF quiet(2), where ev = signed_event and parsed = signed_body
            and form_id = "JStr (u ''form-1'')" and token = "JStr (u ''token-1'')"
            and user_id = "JStr (u ''user-1'')" and e = ClientError
            and attrs = "[(u ''given_name'', u ''Ada''), (u ''family_name'', u ''Byron'')]"
            and prompt = birthdate_only_prompt]
          acc(1) ids(1) composed[of serving_env] served[of serving_env]
    by (simp add: sample_attributes save_to_db_outcome serving_env_def sample_env_def)
  have "signature_accepted sample_env signed_event"
    by (rule signed_accepted; simp add: sample_env_def u_append)
  moreover have "request_ids sample_env (body signed_event) = None"
    by (simp add: request_ids_def sample_env_def)
  ultimately have 8: "isl (snd (lambda_handler sample_env signed_event))"
    using alert_returns_outcomes[OF quiet(1), where ev = signed_event] by blast
  from 1 2 3 4 5 6 7 8 show ?thesis by blast
qed


subsection \<open>The handler when the alert raises\<close>

lemma abort_after_alert:
  "alert_post env = Some e \<Longrightarrow>
   bind_io (log_and_alert env m) (\<lambda>_. return_io r) =
     ([LogError m, Alert (m @ ''. Error: {error}'')], Inl e)"
  by (simp add: log_and_alert_raises bind_io_def)

lemma handler_missing_raises:
  assumes "alert_post env = Some e"
      and "(case map_of (headers ev) (u ''Typeform-Signature'') of None \<Rightarrow> True | Some s \<Rightarrow> s = [])"
  shows "lambda_handler env ev =
           ([LogError ''Webhook signature is missing. Permission denied.'',
             Alert ''Webhook signature is missing. Permission denied.. Error: {error}''],
            Inl e)"
  using assms(2) by (simp add: lambda_handler_def abort_after_alert[OF assms(1)])

lemma handler_unsupported_raises:
  assumes "alert_post env = Some e"
      and "map_of (headers ev) (u ''Typeform-Signature'') = Some s"
      and "split_once 61 s = Some (sha_name, signature)"
      and "sha_name \<noteq> u ''sha256''"
  shows "lambda_handler env ev =
           ([LogError ''Webhook sha is invalid. Permission denied.'',
             Alert ''Webhook sha is invalid. Permission denied.. Error: {error}''],
            Inl e)"
  using assms(4) by (simp add: handler_split[OF assms(2,3)] abort_after_alert[OF assms(1)])

lemma handler_mismatch_raises:
  assumes "alert_post env = Some e"
      and "map_of (headers ev) (u ''Typeform-Signature'') = Some s"
      and "split_once 61 s = Some (u ''sha256'', signature)"
      and "snd (verify_signature env signature (body ev)) \<noteq> Inr True"
  shows "snd (lambda_handler env ev) = Inl e"
proof -
  from verify_signature_never_raises[of env signature "body ev"] assms(4)
  have "snd (verify_signature env signature (body ev)) = Inr False" by auto
  then obtain t where "verify_signature env signature (body ev) = (t, Inr False)"
    by (cases "verify_signature env signature (body ev)") simp
  then show ?thesis
    by (simp add: handler_split[OF assms(2,3)] bind_io_def
          abort_after_alert[OF assms(1), unfolded bind_io_def])
qed

lemma identity_lookup_failure_raises:
  assumes "alert_post env = Some e" and "admin_get_user env user_id = Inl e'"
  shows "snd (resolve_identity env parsed form_id token user_id) = Inl e"
  by (simp add: resolve_identity_def try_except_else_def get_cognito_user_run assms(2)
        abort_after_alert[OF assms(1)])

lemma identity_update_failure_raises:
  assumes "alert_post env = Some e" and "admin_get_user env user_id = Inr attrs"
      and "admin_update_user_attributes env user_id form_id token = Some e'"
  shows "snd (resolve_identity env parsed form_id token user_id) = Inl e"
  by (simp add: resolve_identity_def try_except_else_def get_cognito_user_run update_user_run
        assms(2,3) abort_after_alert[OF assms(1)] Let_def)

lemma deliver_persistence_failure_raises:
  assumes "alert_post env = Some e" and "snd (send_to_slack env prompt) = Inr ()"
      and "snd (save_to_db env user_id prompt) = Inl e'"
  shows "snd (deliver env user_id prompt) = Inl e"
  by (simp add: deliver_def bind_io_snd_Inr[OF assms(2)] try_except_else_def assms(3)
        abort_after_alert[OF assms(1)])

lemma signal_run_raises:
  assumes "alert_post env = Some e" and "sqs_send_message env user_id = Some e'"
  shows "try_except (call_unit (SqsSendMessage user_id) (sqs_send_message env user_id))
           (\<lambda>e. log_and_alert env
                   ''Unable to send initiate generate workout flow for user {user_id}'') =
         ([SqsSendMessage user_id,
           LogError ''Unable to send initiate generate workout flow for user {user_id}'',
           Alert ''Unable to send initiate generate workout flow for user {user_id}. Error: {error}''],
          Inl e)"
  by (simp add: try_except_def call_unit_def bind_io_def emit_def raise_io_def assms(2)
        log_and_alert_raises[OF assms(1)])

lemma deliver_signal_failure_raises:
  assumes "alert_post env = Some e" and "snd (send_to_slack env prompt) = Inr ()"
      and "snd (save_to_db env user_id prompt) = Inr ()"
      and "sqs_send_message env user_id = Some e'"
  shows "snd (deliver env user_id prompt) = Inl e"
proof -
  have "snd (try_except_else (save_to_db env user_id prompt)
       (\<lambda>e. bind_io (log_and_alert env ''Unable to save user story to db'') (\<lambda>_.
               return_io (Response 200 (Some ''Unable to save user story to db.''))))
       (\<lambda>_.
          bind_io
            (try_except
               (call_unit (SqsSendMessage user_id) (sqs_send_message env user_id))
               (\<lambda>e. log_and_alert env
                       ''Unable to send initiate generate workout flow for user {user_id}''))
            (\<lambda>_. return_io (Response 200 None)))) = Inl e"
    by (simp add: try_except_else_def assms(3) signal_run_raises[OF assms(1,4)] bind_io_Inl)
  then show ?thesis
    by (simp add: deliver_def bind_io_snd_Inr[OF assms(2)])
qed

text \<open>
  C7: the claim fails of the handler as it is committed. Every early response of the
  handler (the three 403 rejections, the 200 responses after a failed lookup or update of
  the user and after a failed write of the story) and the alert after a failed send to the
  queue come after \<open>log_and_alert\<close>, whose POST goes to the literal
  \<open>YOUR_SLACK_WEBHOOK_URL_HERE\<close> and raises \<open>MissingSchema\<close>; no \<open>try\<close> encloses it.
  So whenever the POST of the alert raises \<open>e\<close>: with a missing or empty signature
  header, with a header \<open>name=value\<close> whose name is not \<open>sha256\<close>, and with a signature
  that does not verify, the handler raises \<open>e\<close> and gives no 403 response; once the
  signature is accepted and the identifiers are read, after a failed lookup of the user,
  after a failed update of the user, after a failed write of the story and after a failed
  send to the queue, the handler raises \<open>e\<close> and gives no 200 response. Whatever the alert
  does, a header that is not empty and has no \<open>=\<close> makes the unpacking of the split at
  line 39 raise \<open>ValueError\<close>: an unsupported prefix without a 403 response.
\<close>

theorem handler_alert_raises:
  "(alert_post env = Some e \<longrightarrow>
     ((case map_of (headers ev) (u ''Typeform-Signature'') of None \<Rightarrow> True | Some s \<Rightarrow> s = []) \<longrightarrow>
        lambda_handler env ev =
          ([LogError ''Webhook signature is missing. Permission denied.'',
            Alert ''Webhook signature is missing. Permission denied.. Error: {error}''],
           Inl e)) \<and>
     (map_of (headers ev) (u ''Typeform-Signature'') = Some s \<and>
      split_once 61 s = Some (sha_name, signature) \<and> sha_name \<noteq> u ''sha256'' \<longrightarrow>
        lambda_handler env ev =
          ([LogError ''Webhook sha is invalid. Permission denied.'',
            Alert ''Webhook sha is invalid. Permission denied.. Error: {error}''],
           Inl e)) \<and>
     (map_of (headers ev) (u ''Typeform-Signature'') = Some s \<and>
      split_once 61 s = Some (u ''sha256'', signature) \<and>
      snd (verify_signature env signature (body ev)) \<noteq> Inr True \<longrightarrow>
        snd (lambda_handler env ev) = Inl e) \<and>
     (signature_accepted env ev \<and>
      request_ids env (body ev) = Some (parsed, form_id, token, user_id) \<longrightarrow>
        (admin_get_user env user_id = Inl e' \<longrightarrow> snd (lambda_handler env ev) = Inl e) \<and>
        (admin_get_user env user_id = Inr attrs \<and>
         admin_update_user_attributes env user_id form_id token = Some e' \<longrightarrow>
           snd (lambda_handler env ev) = Inl e) \<and>
        (admin_get_user env user_id = Inr attrs \<and>
         admin_update_user_attributes env user_id form_id token = None \<and>
         snd (compose_prompt env parsed
                (get_cognito_user_attribute attrs (u ''given_name''))
                (get_cognito_user_attribute attrs (u ''family_name''))) = Inr prompt \<and>
         snd (send_to_slack env prompt) = Inr () \<longrightarrow>
           (snd (save_to_db env user_id prompt) = Inl e' \<longrightarrow>
              snd (lambda_handler env ev) = Inl e) \<and>
           (snd (save_to_db env user_id prompt) = Inr () \<and>
            sqs_send_message env user_id = Some e' \<longrightarrow>
              snd (lambda_handler env ev) = Inl e)))) \<and>
   (map_of (headers ev) (u ''Typeform-Signature'') = Some s \<and> s \<noteq> [] \<and> 61 \<notin> set s \<longrightarrow>
      lambda_handler env ev = ([], Inl ValueError))"
proof (intro conjI impI)
  assume "map_of (headers ev) (u ''Typeform-Signature'') = Some s \<and> s \<noteq> [] \<and> 61 \<notin> set s"
  then show "lambda_handler env ev = ([], Inl ValueError)"
    by (simp add: handler_header_without_separator)
next
  assume "alert_post env = Some e"
     and "case map_of (headers ev) (u ''Typeform-Signature'') of None \<Rightarrow> True | Some s \<Rightarrow> s = []"
  then show "lambda_handler env ev =
          ([LogError ''Webhook signature is missing. Permission denied.'',
            Alert ''Webhook signature is missing. Permission denied.. Error: {error}''],
           Inl e)"
    by (rule handler_missing_raises)
next
  assume "alert_post env = Some e"
     and "map_of (headers ev) (u ''Typeform-Signature'') = Some s \<and>
      split_once 61 s = Some (sha_name, signature) \<and> sha_name \<noteq> u ''sha256''"
  then show "lambda_handler env ev =
          ([LogError ''Webhook sha is invalid. Permission denied.'',
            Alert ''Webhook sha is invalid. Permission denied.. Error: {error}''],
           Inl e)"
    by (simp add: handler_unsupported_raises)
next
  assume "alert_post env = Some e"
     and "map_of (headers ev) (u ''Typeform-Signature'') = Some s \<and>
      split_once 61 s = Some (u ''sha256'', signature) \<and>
      snd (verify_signature env signature (body ev)) \<noteq> Inr True"
  then show "snd (lambda_handler env ev) = Inl e"
    by (simp add: handler_mismatch_raises)
next
  assume a: "alert_post env = Some e"
     and h: "signature_accepted env ev \<and>
      request_ids env (body ev) = Some (parsed, form_id, token, user_id)"
     and g: "admin_get_user env user_id = Inl e'"
  from h have "snd (lambda_handler env ev) = snd (resolve_identity env parsed form_id token user_id)"
    by (simp add: handler_after_identity)
  then show "snd (lambda_handler env ev) = Inl e"
    by (simp add: identity_lookup_failure_raises[OF a g])
next
  assume a: "alert_post env = Some e"
     and h: "signature_accepted env ev \<and>
      request_ids env (body ev) = Some (parsed, form_id, token, user_id)"
     and g: "admin_get_user env user_id = Inr attrs \<and>
         admin_update_user_attributes env user_id form_id token = Some e'"
  from h have "snd (lambda_handler env ev) = snd (resolve_identity env parsed form_id token user_id)"
    by (simp add: handler_after_identity)
  then show "snd (lambda_handler env ev) = Inl e"
    using g by (simp add: identity_update_failure_raises[OF a])
next
  assume a: "alert_post env = Some e"
     and h: "signature_accepted env ev \<and>
      request_ids env (body ev) = Some (parsed, form_id, token, user_id)"
     and g: "admin_get_user env user_id = Inr attrs \<and>
         admin_update_user_attributes env user_id form_id token = None \<and>
         snd (compose_prompt env parsed
                (get_cognito_user_attribute attrs (u ''given_name''))
                (get_cognito_user_attribute attrs (u ''family_name''))) = Inr prompt \<and>
         snd (send_to_slack env prompt) = Inr ()"
     and d: "snd (save_to_db env user_id prompt) = Inl e'"
  from h g have "snd (lambda_handler env ev) = snd (deliver env user_id prompt)"
    by (simp add: handler_pipeline bind_io_snd_Inr)
  then show "snd (lambda_handler env ev) = Inl e"
    using g by (simp add: deliver_persistence_failure_raises[OF a _ d])
next
  assume a: "alert_post env = Some e"
     and h: "signature_accepted env ev \<and>
      request_ids env (body ev) = Some (parsed, form_id, token, user_id)"
     and g: "admin_get_user env user_id = Inr attrs \<and>
         admin_update_user_attributes env user_id form_id token = None \<and>
         snd (compose_prompt env parsed
                (get_cognito_user_attribute attrs (u ''given_name''))
                (get_cognito_user_attribute attrs (u ''family_name''))) = Inr prompt \<and>
         snd (send_to_slack env prompt) = Inr ()"
     and d: "snd (save_to_db env user_id prompt) = Inr () \<and>
            sqs_send_message env user_id = Some e'"
  from h g have "snd (lambda_handler env ev) = snd (deliver env user_id prompt)"
    by (simp add: handler_pipeline bind_io_snd_Inr)
  then show "snd (lambda_handler env ev) = Inl e"
    using g d by (simp add: deliver_signal_failure_raises[OF a])
qed

theorem handler_alert_raises_witness:
  "lambda_handler alert_down_env unsigned_event =
     ([LogError ''Webhook signature is missing. Permission denied.'',
       Alert ''Webhook signature is missing. Permission denied.. Error: {error}''],
      Inl MissingSchema) \<and>
   lambda_handler alert_down_env md5_event =
     ([LogError ''Webhook sha is invalid. Permission denied.'',
       Alert ''Webhook sha is invalid. Permission denied.. Error: {error}''],
      Inl MissingSchema) \<and>
   snd (lambda_handler (serving_env\<lparr>alert_post := Some MissingSchema\<rparr>) forged_event) =
     Inl MissingSchema \<and>
   snd (lambda_handler (missing_user_env\<lparr>alert_post := Some MissingSchema\<rparr>) signed_event) =
     Inl MissingSchema \<and>
   snd (lambda_handler (db_down_env\<lparr>alert_post := Some MissingSchema\<rparr>) signed_event) =
     Inl MissingSchema \<and>
   snd (lambda_handler (queue_down_env\<lparr>alert_post := Some MissingSchema\<rparr>) signed_event) =
     Inl MissingSchema \<and>
   lambda_handler alert_down_env bare_event = ([], Inl ValueError)"
proof -
  let ?serving = "serving_env\<lparr>alert_post := Some MissingSchema\<rparr>"
  let ?missing = "missing_user_env\<lparr>alert_post := Some MissingSchema\<rparr>"
  let ?db = "db_down_env\<lparr>alert_post := Some MissingSchema\<rparr>"
  let ?queue = "queue_down_env\<lparr>alert_post := Some MissingSchema\<rparr>"
  have down: "alert_post alert_down_env = Some MissingSchema"
    "alert_post ?serving = Some MissingSchema" "alert_post ?missing = Some MissingSchema"
    "alert_post ?db = Some MissingSchema" "alert_post ?queue = Some MissingSchema"
    by (simp_all add: alert_down_env_def)
  have 1: "lambda_handler alert_down_env unsigned_event =
     ([LogError ''Webhook signature is missing. Permission denied.'',
       Alert ''Webhook signature is missing. Permission denied.. Error: {error}''],
      Inl MissingSchema)"
    using handler_alert_raises[where env = alert_down_env and e = MissingSchema
            and ev = unsigned_event] down(1)
    by (simp add: unsigned_event_def)
  have "split_once 61 (u ''md5=abc'') = Some (u ''md5'', u ''abc'')" by (simp add: u_def)
  then have 2: "lambda_handler alert_down_env md5_event =
     ([LogError ''Webhook sha is invalid. Permission denied.'',
       Alert ''Webhook sha is invalid. Permission denied.. Error: {error}''],
      Inl MissingSchema)"
    using handler_alert_raises[where env = alert_down_env and e = MissingSchema
            and ev = md5_event and s = "u ''md5=abc''"
            and sha_name = "u ''md5''" and signature = "u ''abc''"] down(1)
    by (simp add: md5_event_def u_eq_iff)
  have "split_once 61 (u ''sha256=forged'') = Some (u ''sha256'', u ''forged'')"
    by (simp add: u_def)
  moreover have "snd (verify_signature ?serving (u ''forged'') (u ''payload'')) \<noteq> Inr True"
    by (simp add: verify_signature_accepts serving_env_def sample_env_def u_def)
  ultimately have 3: "snd (lambda_handler ?serving forged_event) = Inl MissingSchema"
    using handler_alert_raises[where env = ?serving and e = MissingSchema
            and ev = forged_event and s = "u ''sha256=forged''"
            and signature = "u ''forged''"] down(2)
    by (simp add: forged_event_def)
  have acc: "signature_accepted ?missing signed_event"
    "signature_accepted ?db signed_event"
    "signature_accepted ?queue signed_event"
    by (rule signed_accepted;
        simp add: serving_env_def sample_env_def missing_user_env_def db_down_env_def
          queue_down_env_def u_append)+
  have ids: "request_ids ?missing (body signed_event) =
           Some (signed_body, JStr (u ''form-1''), JStr (u ''token-1''), JStr (u ''user-1''))"
    "request_ids ?db (body signed_event) =
           Some (signed_body, JStr (u ''form-1''), JStr (u ''token-1''), JStr (u ''user-1''))"
    "request_ids ?queue (body signed_event) =
           Some (signed_body, JStr (u ''form-1''), JStr (u ''token-1''), JStr (u ''user-1''))"
    by (rule signed_ids;
        simp add: serving_env_def sample_env_def missing_user_env_def db_down_env_def
          queue_down_env_def)+
  have 4: "snd (lambda_handler ?missing signed_event) = Inl MissingSchema"
    using handler_alert_raises[where env = ?missing and e = MissingSchema
            and ev = signed_event and parsed = signed_body
            and form_id = "JStr (u ''form-1'')" and token = "JStr (u ''token-1'')"
            and user_id = "JStr (u ''user-1'')" and e' = UserNotFoundException]
          down(3) acc(1) ids(1)
    by (simp add: missing_user_env_def)
  have composed: "compose_prompt env signed_body (JStr (u ''Ada'')) (JStr (u ''Byron'')) =
           ([], Inr birthdate_only_prompt)"
    if "env = ?db \<or> env = ?queue" for env
    using that
    by (intro signed_compose)
       (auto simp: serving_env_def sample_env_def db_down_env_def queue_down_env_def)
  have served: "admin_get_user env (JStr (u ''user-1'')) =
        Inr [(u ''given_name'', u ''Ada''), (u ''family_name'', u ''Byron'')] \<and>
      admin_update_user_attributes env (JStr (u ''user-1'')) (JStr (u ''form-1''))
        (JStr (u ''token-1'')) = None \<and>
      snd (send_to_slack env birthdate_only_prompt) = Inr ()"
    if "env = ?db \<or> env = ?queue" for env
    using that
    by (auto simp: serving_env_def sample_env_def db_down_env_def queue_down_env_def
          send_to_slack_delivered)
  have 5: "snd (lambda_handler ?db signed_event) = Inl MissingSchema"
    using handler_alert_raises[where env = ?db and e = MissingSchema
            and ev = signed_event and parsed = signed_body
            and form_id = "JStr (u ''form-1'')" and token = "JStr (u ''token-1'')"
            and user_id = "JStr (u ''user-1'')" and e' = ClientError
            and attrs = "[(u ''given_name'', u ''Ada''), (u ''family_name'', u ''Byron'')]"
            and prompt = birthdate_only_prompt]
          down(4) acc(2) ids(2) composed[of ?db] served[of ?db]
    by (simp add: sample_attributes save_to_db_outcome db_down_env_def)
  have 6: "snd (lambda_handler ?queue signed_event) = Inl MissingSchema"
    using handler_alert_raises[where env = ?queue and e = MissingSchema
            and ev = signed_event and parsed = signed_body
            and form_id = "JStr (u ''form-1'')" and token = "JStr (u ''token-1'')"
            and user_id = "JStr (u ''user-1'')" and e' = ClientError
            and attrs = "[(u ''given_name'', u ''Ada''), (u ''family_name'', u ''Byron'')]"
            and prompt = birthdate_only_prompt]
          down(5) acc(3) ids(3) composed[of ?queue] served[of ?queue]
    by (simp add: sample_attributes save_to_db_outcome queue_down_env_def serving_env_def
          sample_env_def)
  have "61 \<notin> set (u ''md5'')" by (simp add: u_def)
  then have 7: "lambda_handler alert_down_env bare_event = ([], Inl ValueError)"
    using handler_alert_raises[where env = alert_down_env and ev = bare_event
            and s = "u ''md5''"]
    by (simp add: bare_event_def u_def)
  from 1 2 3 4 5 6 7 show ?thesis by blast
qed

lemma empty_choices_extraction:
  "map_question_id_to_answer env (JArr [empty_choices_answer question_id]) =
     ([LogError ''Failed to map question id to answer: {str(e)}'',
       Alert ''Failed to map question id to answer: {str(e)}. Error: {error}''],
      Inl (case alert_post env of None \<Rightarrow> KeyError | Some e \<Rightarrow> e))"
  by (simp add: map_question_id_to_answer_def try_except_def lift_io_def bind_err_def
        process_answer_def answer_value_def empty_choices_answer_def log_and_alert_def
        send_error_to_slack_def bind_io_def emit_def raise_io_def return_io_def
        split: option.splits)

text \<open>
  C10: an answer with \<open>choices\<close> whose labels are empty and which has no \<open>other\<close> key
  makes the extraction raise: the \<open>KeyError\<close> of the missing key, after the alert (or the
  exception of the alert itself). No dictionary is produced, and the handler that reaches
  the extraction with such an answer raises as well.
\<close>

theorem empty_choices_without_other_raises:
  "map_question_id_to_answer env (JArr [empty_choices_answer question_id]) =
     ([LogError ''Failed to map question id to answer: {str(e)}'',
       Alert ''Failed to map question id to answer: {str(e)}. Error: {error}''],
      Inl (case alert_post env of None \<Rightarrow> KeyError | Some e \<Rightarrow> e)) \<and>
   (signature_accepted env ev \<and>
    request_ids env (body ev) = Some (parsed, form_id, token, user_id) \<and>
    admin_get_user env user_id = Inr attrs \<and>
    admin_update_user_attributes env user_id form_id token = None \<and>
    bind_err (subscript parsed (u ''form_response'')) (\<lambda>r. subscript r (u ''definition'')) =
      Inr form_definition \<and>
    bind_err (subscript parsed (u ''form_response'')) (\<lambda>r. subscript r (u ''answers'')) =
      Inr (JArr [empty_choices_answer question_id]) \<longrightarrow>
      isl (snd (lambda_handler env ev)))"
proof (intro conjI impI; (elim conjE)?)
  show "map_question_id_to_answer env (JArr [empty_choices_answer question_id]) =
     ([LogError ''Failed to map question id to answer: {str(e)}'',
       Alert ''Failed to map question id to answer: {str(e)}. Error: {error}''],
      Inl (case alert_post env of None \<Rightarrow> KeyError | Some e \<Rightarrow> e))"
    by (rule empty_choices_extraction)
next
  assume acc: "signature_accepted env ev"
    and ids: "request_ids env (body ev) = Some (parsed, form_id, token, user_id)"
    and usr: "admin_get_user env user_id = Inr attrs"
    and upd: "admin_update_user_attributes env user_id form_id token = None"
    and fd: "bind_err (subscript parsed (u ''form_response''))
               (\<lambda>r. subscript r (u ''definition'')) = Inr form_definition"
    and fa: "bind_err (subscript parsed (u ''form_response''))
               (\<lambda>r. subscript r (u ''answers'')) = Inr (JArr [empty_choices_answer question_id])"
  have "isl (snd (map_question_id_to_answer env (JArr [empty_choices_answer question_id])))"
    by (simp add: empty_choices_extraction)
  then have "isl (snd (compose_prompt env parsed
                 (get_cognito_user_attribute attrs (u ''given_name''))
                 (get_cognito_user_attribute attrs (u ''family_name''))))"
    using compose_prompt_extraction_failure[OF fd fa] by blast
  then show "isl (snd (lambda_handler env ev))"
    unfolding handler_pipeline[OF acc ids usr upd] by (simp add: bind_io_fails_first)
qed

theorem empty_choices_without_other_raises_witness:
  "snd (map_question_id_to_answer sample_env (JArr [empty_choices_answer (JStr (u ''q5''))])) =
     Inl KeyError \<and>
   isl (snd (lambda_handler incomplete_choices_env signed_event))"
proof -
  note w = empty_choices_without_other_raises [where env = incomplete_choices_env
      and question_id = "JStr (u ''q5'')" and ev = signed_event
      and parsed = incomplete_choices_body and form_id = "JStr (u ''form-1'')"
      and token = "JStr (u ''token-1'')" and user_id = "JStr (u ''user-1'')"
      and attrs = "[(u ''given_name'', u ''Ada''), (u ''family_name'', u ''Byron'')]"
      and form_definition = birthdate_definition]
  have acc: "signature_accepted incomplete_choices_env signed_event"
    by (rule signed_accepted; simp add: incomplete_choices_env_def sample_env_def u_append)
  have ids: "request_ids incomplete_choices_env (body signed_event) =
      Some (incomplete_choices_body, JStr (u ''form-1''), JStr (u ''token-1''), JStr (u ''user-1''))"
    by (simp add: request_ids_def signed_event_def bind_err_def incomplete_choices_body_def
          incomplete_choices_env_def)
  have parts: "bind_err (subscript incomplete_choices_body (u ''form_response''))
        (\<lambda>r. subscript r (u ''definition'')) = Inr birthdate_definition"
    "bind_err (subscript incomplete_choices_body (u ''form_response''))
        (\<lambda>r. subscript r (u ''answers'')) = Inr (JArr [empty_choices_answer (JStr (u ''q5''))])"
    by (simp_all add: incomplete_choices_body_def bind_err_def)
  from w acc ids parts have "isl (snd (lambda_handler incomplete_choices_env signed_event))"
    by (simp add: incomplete_choices_env_def sample_env_def)
  moreover from empty_choices_without_other_raises [of sample_env "JStr (u ''q5'')"]
  have "snd (map_question_id_to_answer sample_env (JArr [empty_choices_answer (JStr (u ''q5''))])) =
     Inl KeyError"
    by (simp add: sample_env_def)
  ultimately show ?thesis by blast
qed

end
